theory Spec2Isabelle
  imports Main "HOL-Library.Multiset"
begin

section \<open>JavaScript values used by the route handlers\<close>

text \<open>
  The route handlers are TypeScript functions over a relational database and an object
  store.  Strings are lists of code units (\<open>char\<close>).  A number is a double; the
  handlers only produce integral ones, so a number is \<open>NaN\<close>, an infinity, or an
  integer that a double can hold: every arithmetic result is rounded to the nearest such
  integer (\<open>round_double\<close>), which changes nothing up to \<open>2^53\<close>.  A parsed JSON body
  is a \<open>jsval\<close>.
\<close>

datatype jsnum = NaN | Num int | PosInf | NegInf

fun bit_length :: "nat \<Rightarrow> nat" where
  "bit_length n = (if n = 0 then 0 else Suc (bit_length (n div 2)))"

declare bit_length.simps [simp del]

text \<open>
  The double nearest to an integer: beyond 53 bits the low bits are rounded away, a tie
  going to the even significand, and a magnitude of \<open>2^1024\<close> or more is an infinity.
\<close>

definition round_double :: "int \<Rightarrow> jsnum" where
  "round_double n =
     (let a = nat \<bar>n\<bar> in
      if a \<le> 2 ^ 53 then Num n
      else
        let e = bit_length a - 53;
            q = a div 2 ^ e;
            r = a mod 2 ^ e;
            q' = (if 2 * r > 2 ^ e \<or> (2 * r = 2 ^ e \<and> odd q) then q + 1 else q);
            m = q' * 2 ^ e
        in if m \<ge> 2 ^ 1024 then (if n < 0 then NegInf else PosInf)
           else Num ((if n < 0 then - 1 else 1) * int m))"

text \<open>\<open>Math.min\<close>, \<open>+\<close> and \<open>-\<close> on such numbers.\<close>

fun js_min :: "jsnum \<Rightarrow> jsnum \<Rightarrow> jsnum" where
  "js_min NaN _ = NaN"
| "js_min _ NaN = NaN"
| "js_min NegInf _ = NegInf"
| "js_min _ NegInf = NegInf"
| "js_min PosInf b = b"
| "js_min a PosInf = a"
| "js_min (Num a) (Num b) = Num (min a b)"

fun js_add :: "jsnum \<Rightarrow> jsnum \<Rightarrow> jsnum" where
  "js_add NaN _ = NaN"
| "js_add _ NaN = NaN"
| "js_add PosInf NegInf = NaN"
| "js_add NegInf PosInf = NaN"
| "js_add PosInf _ = PosInf"
| "js_add _ PosInf = PosInf"
| "js_add NegInf _ = NegInf"
| "js_add _ NegInf = NegInf"
| "js_add (Num a) (Num b) = round_double (a + b)"

fun js_sub :: "jsnum \<Rightarrow> jsnum \<Rightarrow> jsnum" where
  "js_sub NaN _ = NaN"
| "js_sub _ NaN = NaN"
| "js_sub PosInf PosInf = NaN"
| "js_sub NegInf NegInf = NaN"
| "js_sub PosInf _ = PosInf"
| "js_sub _ NegInf = PosInf"
| "js_sub NegInf _ = NegInf"
| "js_sub _ PosInf = NegInf"
| "js_sub (Num a) (Num b) = round_double (a - b)"

datatype jsval =
    JUndefined
  | JNull
  | JBool bool
  | JNum int
  | JStr string
  | JArr "jsval list"
  | JObj "(string \<times> jsval) list"

text \<open>\<open>!v\<close> is \<open>\<not> truthy v\<close>.\<close>

fun truthy :: "jsval \<Rightarrow> bool" where
  "truthy JUndefined = False"
| "truthy JNull = False"
| "truthy (JBool b) = b"
| "truthy (JNum n) = (n \<noteq> 0)"
| "truthy (JStr s) = (s \<noteq> [])"
| "truthy (JArr _) = True"
| "truthy (JObj _) = True"

fun typeof :: "jsval \<Rightarrow> string" where
  "typeof JUndefined = ''undefined''"
| "typeof JNull = ''object''"
| "typeof (JBool _) = ''boolean''"
| "typeof (JNum _) = ''number''"
| "typeof (JStr _) = ''string''"
| "typeof (JArr _) = ''object''"
| "typeof (JObj _) = ''object''"

fun str_of :: "jsval \<Rightarrow> string" where
  "str_of (JStr s) = s"
| "str_of _ = []"

text \<open>
  \<open>const { k } = body\<close>: destructuring \<open>null\<close> throws a TypeError (\<open>None\<close>); a
  missing property is \<open>undefined\<close>; of duplicate keys \<open>JSON.parse\<close> keeps the last.
\<close>

fun get_field :: "jsval \<Rightarrow> string \<Rightarrow> jsval option" where
  "get_field JNull k = None"
| "get_field JUndefined k = None"
| "get_field (JObj kvs) k =
     Some (case map_of (rev kvs) k of Some v \<Rightarrow> v | None \<Rightarrow> JUndefined)"
| "get_field _ k = Some JUndefined"

text \<open>\<open>s || d\<close> on a string or null: the default replaces null and the empty string.\<close>

fun or_default :: "string option \<Rightarrow> string \<Rightarrow> string" where
  "or_default None d = d"
| "or_default (Some s) d = (if s = [] then d else s)"

subsection \<open>\<open>parseInt\<close> and \<open>trim\<close>\<close>

definition is_js_space :: "char \<Rightarrow> bool" where
  "is_js_space c = ((of_char c :: nat) \<in> {9, 10, 11, 12, 13, 32, 160})"

definition digit_val :: "char \<Rightarrow> nat option" where
  "digit_val c =
     (let n = (of_char c :: nat) in
      if 48 \<le> n \<and> n \<le> 57 then Some (n - 48)
      else if 97 \<le> n \<and> n \<le> 102 then Some (n - 87)
      else if 65 \<le> n \<and> n \<le> 70 then Some (n - 55)
      else None)"

definition is_digit :: "nat \<Rightarrow> char \<Rightarrow> bool" where
  "is_digit R c = (case digit_val c of Some d \<Rightarrow> d < R | None \<Rightarrow> False)"

definition digits_value :: "nat \<Rightarrow> string \<Rightarrow> nat" where
  "digits_value R Z = foldl (\<lambda>a c. R * a + (case digit_val c of Some d \<Rightarrow> d | None \<Rightarrow> 0)) 0 Z"

text \<open>
  \<open>parseInt(s)\<close> with no radix: leading white space is skipped, a sign is read, a
  \<open>0x\<close> prefix selects radix 16, the longest prefix of digits is the value, as the
  double nearest to it, and no digit at all gives \<open>NaN\<close>.
\<close>

definition parseInt :: "string \<Rightarrow> jsnum" where
  "parseInt s =
     (let S = dropWhile is_js_space s;
          neg = (take 1 S = ''-'');
          S1 = (if take 1 S = ''-'' \<or> take 1 S = ''+'' then drop 1 S else S);
          hex = (take 2 S1 = ''0x'' \<or> take 2 S1 = ''0X'');
          R = (if hex then 16 else 10);
          S2 = (if hex then drop 2 S1 else S1);
          Z = takeWhile (is_digit R) S2
      in if Z = [] then NaN
         else round_double ((if neg then - 1 else 1) * int (digits_value R Z)))"

definition trim :: "string \<Rightarrow> string" where
  "trim s = rev (dropWhile is_js_space (rev (dropWhile is_js_space s)))"

text \<open>\<open>n.toString()\<close> for a non-negative integer.\<close>

fun decimal :: "nat \<Rightarrow> string" where
  "decimal n =
     (if n < 10 then [char_of (48 + n)]
      else decimal (n div 10) @ [char_of (48 + n mod 10)])"

declare decimal.simps [simp del]

section \<open>The database and the object store\<close>

type_synonym uuid = string
type_synonym timestamp = int

record user_row =
  u_id :: uuid
  u_clerk_id :: string
  u_name :: string
  u_created_at :: timestamp

record post_row =
  p_id :: uuid
  p_user_id :: uuid
  p_image_url :: string
  p_caption :: "string option"
  p_created_at :: timestamp
  p_updated_at :: timestamp

record like_row =
  l_id :: uuid
  l_post_id :: uuid
  l_user_id :: uuid
  l_created_at :: timestamp

record comment_row =
  c_id :: uuid
  c_post_id :: uuid
  c_user_id :: uuid
  c_content :: string
  c_created_at :: timestamp
  c_updated_at :: timestamp

record follow_row =
  f_id :: uuid
  f_follower_id :: uuid
  f_following_id :: uuid
  f_created_at :: timestamp

text \<open>
  The five tables, and the paths of the objects in the storage bucket \<open>posts\<close>.
\<close>

record db =
  users :: "user_row list"
  posts :: "post_row list"
  likes :: "like_row list"
  comments :: "comment_row list"
  follows :: "follow_row list"
  bucket :: "string list"

datatype pg_error = PgError (code: string) (message: string)

datatype db_op =
    UsersSelect | PostsSelect | PostsInsert | PostsDelete | PostStatsSelect
  | LikesSelect | LikesInsert | LikesDelete
  | CommentsSelect | CommentsInsert | CommentsDelete
  | FollowsSelect | FollowsInsert | FollowsDelete
  | StorageUpload | StorageRemove

text \<open>
  What a request finds outside the handler: \<open>failure op\<close> is the error object a call
  of kind \<open>op\<close> returns without touching the data (the client library returns errors,
  it does not throw); \<open>remove_rejects\<close> makes the promise of a storage removal reject;
  \<open>gen_uuid\<close> and \<open>now\<close> are the column defaults of an inserted row;
  \<open>date_now_random\<close> is the generated part of an upload's file name;
  \<open>public_url\<close> is \<open>getPublicUrl\<close>; \<open>url_pathname\<close> is \<open>new URL(s).pathname\<close>,
  \<open>None\<close> when the constructor throws; \<open>tie_break\<close> ranks the posts in the order
  in which the database happens to produce rows that an \<open>ORDER BY\<close> leaves equal,
  which may differ from one request to the next.
\<close>

record env =
  failure :: "db_op \<Rightarrow> pg_error option"
  remove_rejects :: bool
  gen_uuid :: uuid
  now :: timestamp
  date_now_random :: string
  public_url :: "string \<Rightarrow> string"
  url_pathname :: "string \<Rightarrow> string option"
  tie_break :: "uuid \<Rightarrow> int"

text \<open>\<open>.single()\<close>: exactly one row, or the error \<open>PGRST116\<close>.\<close>

definition single :: "'a list \<Rightarrow> pg_error + 'a" where
  "single rows =
     (case rows of
        [r] \<Rightarrow> Inr r
      | _ \<Rightarrow> Inl (PgError ''PGRST116'' ''JSON object requested, multiple (or no) rows returned''))"

definition select_rows :: "env \<Rightarrow> db_op \<Rightarrow> 'a list \<Rightarrow> pg_error + 'a list" where
  "select_rows e op rows = (case failure e op of Some err \<Rightarrow> Inl err | None \<Rightarrow> Inr rows)"

definition select_single :: "env \<Rightarrow> db_op \<Rightarrow> 'a list \<Rightarrow> pg_error + 'a" where
  "select_single e op rows = (case failure e op of Some err \<Rightarrow> Inl err | None \<Rightarrow> single rows)"

text \<open>
  Modelled from the spec: the table definitions are not among the sources; the data
  model gives likes the unique key (post id, user id), follows the unique key
  (follower, following) with follower \<noteq> following, and lets the deletion of a post
  cascade to its likes and comments.  A violated unique key is PostgreSQL's error 23505,
  a violated check 23514.
\<close>

definition like_rows :: "db \<Rightarrow> uuid \<Rightarrow> uuid \<Rightarrow> like_row list" where
  "like_rows d pid uid = filter (\<lambda>l. l_post_id l = pid \<and> l_user_id l = uid) (likes d)"

definition insert_like :: "env \<Rightarrow> db \<Rightarrow> uuid \<Rightarrow> uuid \<Rightarrow> (pg_error + like_row) \<times> db" where
  "insert_like e d pid uid =
     (case failure e LikesInsert of
        Some err \<Rightarrow> (Inl err, d)
      | None \<Rightarrow>
          if like_rows d pid uid \<noteq> []
          then (Inl (PgError ''23505'' ''duplicate key value violates unique constraint''), d)
          else let row = \<lparr>l_id = gen_uuid e, l_post_id = pid, l_user_id = uid,
                           l_created_at = now e\<rparr>
               in (Inr row, d\<lparr>likes := likes d @ [row]\<rparr>))"

definition delete_likes :: "env \<Rightarrow> db \<Rightarrow> uuid \<Rightarrow> uuid \<Rightarrow> pg_error option \<times> db" where
  "delete_likes e d pid uid =
     (case failure e LikesDelete of
        Some err \<Rightarrow> (Some err, d)
      | None \<Rightarrow>
          (None, d\<lparr>likes := filter (\<lambda>l. \<not> (l_post_id l = pid \<and> l_user_id l = uid)) (likes d)\<rparr>))"

definition follow_rows :: "db \<Rightarrow> uuid \<Rightarrow> uuid \<Rightarrow> follow_row list" where
  "follow_rows d a b = filter (\<lambda>f. f_follower_id f = a \<and> f_following_id f = b) (follows d)"

definition insert_follow :: "env \<Rightarrow> db \<Rightarrow> uuid \<Rightarrow> uuid \<Rightarrow> (pg_error + follow_row) \<times> db" where
  "insert_follow e d a b =
     (case failure e FollowsInsert of
        Some err \<Rightarrow> (Inl err, d)
      | None \<Rightarrow>
          if a = b
          then (Inl (PgError ''23514'' ''new row violates check constraint''), d)
          else if follow_rows d a b \<noteq> []
          then (Inl (PgError ''23505'' ''duplicate key value violates unique constraint''), d)
          else let row = \<lparr>f_id = gen_uuid e, f_follower_id = a, f_following_id = b,
                           f_created_at = now e\<rparr>
               in (Inr row, d\<lparr>follows := follows d @ [row]\<rparr>))"

definition delete_follow :: "env \<Rightarrow> db \<Rightarrow> uuid \<Rightarrow> pg_error option \<times> db" where
  "delete_follow e d fid =
     (case failure e FollowsDelete of
        Some err \<Rightarrow> (Some err, d)
      | None \<Rightarrow> (None, d\<lparr>follows := filter (\<lambda>f. f_id f \<noteq> fid) (follows d)\<rparr>))"

definition insert_comment ::
  "env \<Rightarrow> db \<Rightarrow> uuid \<Rightarrow> uuid \<Rightarrow> string \<Rightarrow> (pg_error + comment_row) \<times> db" where
  "insert_comment e d pid uid content =
     (case failure e CommentsInsert of
        Some err \<Rightarrow> (Inl err, d)
      | None \<Rightarrow>
          let row = \<lparr>c_id = gen_uuid e, c_post_id = pid, c_user_id = uid, c_content = content,
                      c_created_at = now e, c_updated_at = now e\<rparr>
          in (Inr row, d\<lparr>comments := comments d @ [row]\<rparr>))"

definition delete_comment :: "env \<Rightarrow> db \<Rightarrow> uuid \<Rightarrow> pg_error option \<times> db" where
  "delete_comment e d cid =
     (case failure e CommentsDelete of
        Some err \<Rightarrow> (Some err, d)
      | None \<Rightarrow> (None, d\<lparr>comments := filter (\<lambda>c. c_id c \<noteq> cid) (comments d)\<rparr>))"

definition insert_post ::
  "env \<Rightarrow> db \<Rightarrow> uuid \<Rightarrow> string \<Rightarrow> string option \<Rightarrow> (pg_error + post_row) \<times> db" where
  "insert_post e d uid image_url caption =
     (case failure e PostsInsert of
        Some err \<Rightarrow> (Inl err, d)
      | None \<Rightarrow>
          let row = \<lparr>p_id = gen_uuid e, p_user_id = uid, p_image_url = image_url,
                      p_caption = caption, p_created_at = now e, p_updated_at = now e\<rparr>
          in (Inr row, d\<lparr>posts := posts d @ [row]\<rparr>))"

definition delete_post :: "env \<Rightarrow> db \<Rightarrow> uuid \<Rightarrow> pg_error option \<times> db" where
  "delete_post e d pid =
     (case failure e PostsDelete of
        Some err \<Rightarrow> (Some err, d)
      | None \<Rightarrow>
          (None, d\<lparr>posts := filter (\<lambda>p. p_id p \<noteq> pid) (posts d),
                    likes := filter (\<lambda>l. l_post_id l \<noteq> pid) (likes d),
                    comments := filter (\<lambda>c. c_post_id c \<noteq> pid) (comments d)\<rparr>))"

text \<open>
  Modelled from the spec: the definition of the view \<open>post_stats\<close> is not among the
  sources; it is the posts with their like and comment counts, recomputed at every read,
  and it carries no \<open>updated_at\<close> column.
\<close>

record post_stats_row =
  ps_post_id :: uuid
  ps_user_id :: uuid
  ps_image_url :: string
  ps_caption :: "string option"
  ps_created_at :: timestamp
  ps_likes_count :: nat
  ps_comments_count :: nat

definition post_stats :: "db \<Rightarrow> post_stats_row list" where
  "post_stats d =
     map (\<lambda>p. \<lparr>ps_post_id = p_id p, ps_user_id = p_user_id p, ps_image_url = p_image_url p,
                ps_caption = p_caption p, ps_created_at = p_created_at p,
                ps_likes_count = length (filter (\<lambda>l. l_post_id l = p_id p) (likes d)),
                ps_comments_count = length (filter (\<lambda>c. c_post_id c = p_id p) (comments d))\<rparr>)
       (posts d)"

text \<open>
  \<open>.order("created_at", { ascending: false })\<close>: newest first.  Rows with equal
  timestamps come in the order the database happens to produce them, which the request's
  environment gives.
\<close>

definition order_created_at_desc :: "env \<Rightarrow> post_stats_row list \<Rightarrow> post_stats_row list" where
  "order_created_at_desc e rows =
     sort_key (\<lambda>r. - ps_created_at r) (sort_key (\<lambda>r. tie_break e (ps_post_id r)) rows)"

text \<open>
  \<open>.range(from, to)\<close> asks for the rows at offsets \<open>from\<close> to \<open>to\<close>, both included:
  the client sends offset \<open>from\<close> and limit \<open>to - from + 1\<close>.  A negative or
  non-numeric offset or limit is rejected by the database interface.
\<close>

definition range_query :: "env \<Rightarrow> db_op \<Rightarrow> jsnum \<Rightarrow> jsnum \<Rightarrow> 'a list \<Rightarrow> pg_error + 'a list" where
  "range_query e op from to rows =
     (case failure e op of
        Some err \<Rightarrow> Inl err
      | None \<Rightarrow>
          (case (from, js_add (js_sub to from) (Num 1)) of
             (Num off, Num lim) \<Rightarrow>
               if 0 \<le> off \<and> 0 \<le> lim
               then Inr (take (nat lim) (drop (nat off) rows))
               else Inl (PgError ''PGRST103'' ''Requested range not satisfiable'')
           | _ \<Rightarrow> Inl (PgError ''PGRST103'' ''Requested range not satisfiable'')))"

datatype 'a promise = Rejected | Resolved 'a

text \<open>
  The bucket \<open>posts\<close>: an upload with \<open>upsert: false\<close> fails on an existing path; a
  removal returns an error object, or its promise rejects, or the paths are removed.
\<close>

definition storage_upload :: "env \<Rightarrow> db \<Rightarrow> string \<Rightarrow> pg_error option \<times> db" where
  "storage_upload e d path =
     (case failure e StorageUpload of
        Some err \<Rightarrow> (Some err, d)
      | None \<Rightarrow>
          if path \<in> set (bucket d)
          then (Some (PgError ''Duplicate'' ''The resource already exists''), d)
          else (None, d\<lparr>bucket := bucket d @ [path]\<rparr>))"

definition storage_remove :: "env \<Rightarrow> db \<Rightarrow> string list \<Rightarrow> pg_error option promise \<times> db" where
  "storage_remove e d paths =
     (if remove_rejects e then (Rejected, d)
      else case failure e StorageRemove of
        Some err \<Rightarrow> (Resolved (Some err), d)
      | None \<Rightarrow> (Resolved None, d\<lparr>bucket := filter (\<lambda>x. x \<notin> set paths) (bucket d)\<rparr>))"

section \<open>Requests and responses\<close>

record image_file =
  file_name :: string
  file_size :: nat
  file_type :: string

datatype form_value = FileValue image_file | TextValue string

text \<open>
  \<open>auth_userId\<close> is the subject the identity provider verified (\<open>auth().userId\<close>);
  \<open>json_body\<close> and \<open>form\<close> are \<open>None\<close> when \<open>request.json()\<close> or
  \<open>request.formData()\<close> throws; \<open>query\<close> is \<open>searchParams.get\<close>; \<open>path_postId\<close> is
  the route parameter.
\<close>

record request =
  auth_userId :: "string option"
  json_body :: "jsval option"
  query :: "string \<Rightarrow> string option"
  form :: "(string \<Rightarrow> form_value option) option"
  path_postId :: string

record post_with_user =
  pw_id :: uuid
  pw_user_id :: uuid
  pw_image_url :: string
  pw_caption :: "string option"
  pw_created_at :: timestamp
  pw_updated_at :: timestamp
  pw_likes_count :: nat
  pw_comments_count :: nat
  pw_user :: user_row
  pw_is_liked :: bool

record comment_with_user =
  cw_comment :: comment_row
  cw_user :: user_row

datatype body =
    ErrorBody string "string option"
  | ErrorNullData string
  | PostList "post_with_user list" bool "jsnum option"
  | PostDetail post_with_user
  | CreatedPost post_row
  | CreatedLike like_row
  | CreatedComment comment_with_user
  | CreatedFollow follow_row
  | SuccessMessage string

datatype response = Response (status: nat) (payload: body)

definition error_json :: "nat \<Rightarrow> string \<Rightarrow> response" where
  "error_json st msg = Response st (ErrorBody msg None)"

definition error_details :: "nat \<Rightarrow> string \<Rightarrow> pg_error \<Rightarrow> response" where
  "error_details st msg err = Response st (ErrorBody msg (Some (message err)))"

definition ok_json :: "body \<Rightarrow> response" where
  "ok_json b = Response 200 b"

text \<open>\<open>!clerkUserId\<close>: no verified subject, or an empty one.\<close>

fun authenticated :: "string option \<Rightarrow> string option" where
  "authenticated None = None"
| "authenticated (Some c) = (if c = [] then None else Some c)"

text \<open>
  The query every handler uses to resolve the requester:
  \<open>from("users").select("id").eq("clerk_id", clerkUserId).single()\<close>.
\<close>

definition current_user :: "env \<Rightarrow> db \<Rightarrow> string \<Rightarrow> pg_error + uuid" where
  "current_user e d clerkUserId =
     map_sum id u_id
       (select_single e UsersSelect (filter (\<lambda>u. u_clerk_id u = clerkUserId) (users d)))"

section \<open>Likes: \<open>app/api/likes/route.ts\<close>\<close>

definition likes_POST :: "env \<Rightarrow> request \<Rightarrow> db \<Rightarrow> response \<times> db" where
  "likes_POST e req d =
     (case authenticated (auth_userId req) of
        None \<Rightarrow> (error_json 401 ''Unauthorized'', d)
      | Some clerkUserId \<Rightarrow>
     (case json_body req of
        None \<Rightarrow> (error_json 500 ''Internal server error'', d)
      | Some body \<Rightarrow>
     (case get_field body ''post_id'' of
        None \<Rightarrow> (error_json 500 ''Internal server error'', d)
      | Some post_id \<Rightarrow>
     if \<not> truthy post_id \<or> typeof post_id \<noteq> ''string''
     then (error_json 400 ''post_id is required'', d)
     else
     (case current_user e d clerkUserId of
        Inl userError \<Rightarrow> (error_json 404 ''User not found'', d)
      | Inr currentUser \<Rightarrow>
     (case select_single e PostsSelect (filter (\<lambda>p. p_id p = str_of post_id) (posts d)) of
        Inl postError \<Rightarrow> (error_json 404 ''Post not found'', d)
      | Inr post \<Rightarrow>
     (case insert_like e d (str_of post_id) currentUser of
        (Inl likeError, d') \<Rightarrow>
          if code likeError = ''23505''
          then (error_json 409 ''Already liked'', d')
          else (error_details 500 ''Failed to add like'' likeError, d')
      | (Inr like, d') \<Rightarrow> (ok_json (CreatedLike like), d')))))))"

definition likes_DELETE :: "env \<Rightarrow> request \<Rightarrow> db \<Rightarrow> response \<times> db" where
  "likes_DELETE e req d =
     (case authenticated (auth_userId req) of
        None \<Rightarrow> (error_json 401 ''Unauthorized'', d)
      | Some clerkUserId \<Rightarrow>
     (case json_body req of
        None \<Rightarrow> (error_json 500 ''Internal server error'', d)
      | Some body \<Rightarrow>
     (case get_field body ''post_id'' of
        None \<Rightarrow> (error_json 500 ''Internal server error'', d)
      | Some post_id \<Rightarrow>
     if \<not> truthy post_id \<or> typeof post_id \<noteq> ''string''
     then (error_json 400 ''post_id is required'', d)
     else
     (case current_user e d clerkUserId of
        Inl userError \<Rightarrow> (error_json 404 ''User not found'', d)
      | Inr currentUser \<Rightarrow>
     (case delete_likes e d (str_of post_id) currentUser of
        (Some deleteError, d') \<Rightarrow> (error_details 500 ''Failed to remove like'' deleteError, d')
      | (None, d') \<Rightarrow> (ok_json (SuccessMessage ''Like removed''), d'))))))"

section \<open>Follows\<close>

definition follows_POST :: "env \<Rightarrow> request \<Rightarrow> db \<Rightarrow> response \<times> db" where
  "follows_POST e req d =
     (case authenticated (auth_userId req) of
        None \<Rightarrow> (error_json 401 ''Unauthorized'', d)
      | Some clerkUserId \<Rightarrow>
     (case json_body req of
        None \<Rightarrow> (error_json 500 ''Internal server error'', d)
      | Some body \<Rightarrow>
     (case get_field body ''following_id'' of
        None \<Rightarrow> (error_json 500 ''Internal server error'', d)
      | Some following_id \<Rightarrow>
     if \<not> truthy following_id \<or> typeof following_id \<noteq> ''string''
     then (error_json 400 ''following_id is required'', d)
     else
     (case current_user e d clerkUserId of
        Inl userError \<Rightarrow> (error_json 404 ''User not found'', d)
      | Inr currentUser \<Rightarrow>
     if currentUser = str_of following_id
     then (error_json 400 ''Cannot follow yourself'', d)
     else
     (case select_single e UsersSelect (filter (\<lambda>u. u_id u = str_of following_id) (users d)) of
        Inl targetUserError \<Rightarrow> (error_json 404 ''Target user not found'', d)
      | Inr targetUser \<Rightarrow>
     (case select_single e FollowsSelect (follow_rows d currentUser (str_of following_id)) of
        Inr existingFollow \<Rightarrow> (error_json 400 ''Already following this user'', d)
      | Inl _ \<Rightarrow>
     (case insert_follow e d currentUser (str_of following_id) of
        (Inl followError, d') \<Rightarrow>
          if code followError = ''23505''
          then (error_json 400 ''Already following this user'', d')
          else (error_details 500 ''Failed to follow user'' followError, d')
      | (Inr follow, d') \<Rightarrow> (ok_json (CreatedFollow follow), d'))))))))"

definition follows_DELETE :: "env \<Rightarrow> request \<Rightarrow> db \<Rightarrow> response \<times> db" where
  "follows_DELETE e req d =
     (case authenticated (auth_userId req) of
        None \<Rightarrow> (error_json 401 ''Unauthorized'', d)
      | Some clerkUserId \<Rightarrow>
     (case json_body req of
        None \<Rightarrow> (error_json 500 ''Internal server error'', d)
      | Some body \<Rightarrow>
     (case get_field body ''following_id'' of
        None \<Rightarrow> (error_json 500 ''Internal server error'', d)
      | Some following_id \<Rightarrow>
     if \<not> truthy following_id \<or> typeof following_id \<noteq> ''string''
     then (error_json 400 ''following_id is required'', d)
     else
     (case current_user e d clerkUserId of
        Inl userError \<Rightarrow> (error_json 404 ''User not found'', d)
      | Inr currentUser \<Rightarrow>
     (case select_single e FollowsSelect (follow_rows d currentUser (str_of following_id)) of
        Inl followError \<Rightarrow> (error_json 404 ''Follow relationship not found'', d)
      | Inr follow \<Rightarrow>
     if f_follower_id follow \<noteq> currentUser
     then (error_json 403 ''Forbidden: You can only unfollow users you are following'', d)
     else
     (case delete_follow e d (f_id follow) of
        (Some deleteError, d') \<Rightarrow> (error_details 500 ''Failed to unfollow user'' deleteError, d')
      | (None, d') \<Rightarrow> (ok_json (SuccessMessage ''Unfollowed successfully''), d')))))))"

section \<open>Comments: \<open>app/api/comments/route.ts\<close>\<close>

definition comments_POST :: "env \<Rightarrow> request \<Rightarrow> db \<Rightarrow> response \<times> db" where
  "comments_POST e req d =
     (case authenticated (auth_userId req) of
        None \<Rightarrow> (error_json 401 ''Unauthorized'', d)
      | Some clerkUserId \<Rightarrow>
     (case json_body req of
        None \<Rightarrow> (error_json 500 ''Internal server error'', d)
      | Some body \<Rightarrow>
     (case (get_field body ''post_id'', get_field body ''content'') of
        (Some post_id, Some content) \<Rightarrow>
     if \<not> truthy post_id \<or> typeof post_id \<noteq> ''string''
     then (error_json 400 ''post_id is required'', d)
     else if \<not> truthy content \<or> typeof content \<noteq> ''string''
             \<or> length (trim (str_of content)) = 0
     then (error_json 400 ''content is required and cannot be empty'', d)
     else
     (case current_user e d clerkUserId of
        Inl userError \<Rightarrow> (error_json 404 ''User not found'', d)
      | Inr currentUser \<Rightarrow>
     (case select_single e PostsSelect (filter (\<lambda>p. p_id p = str_of post_id) (posts d)) of
        Inl postError \<Rightarrow> (error_json 404 ''Post not found'', d)
      | Inr post \<Rightarrow>
     (case insert_comment e d (str_of post_id) currentUser (trim (str_of content)) of
        (Inl commentError, d') \<Rightarrow>
          (error_details 500 ''Failed to create comment'' commentError, d')
      | (Inr comment, d') \<Rightarrow>
          let user = (case select_single e UsersSelect
                             (filter (\<lambda>u. u_id u = currentUser) (users d')) of
                        Inr u \<Rightarrow> u
                      | Inl _ \<Rightarrow> \<lparr>u_id = currentUser, u_clerk_id = clerkUserId,
                                  u_name = ''Unknown'', u_created_at = c_created_at comment\<rparr>)
          in (ok_json (CreatedComment \<lparr>cw_comment = comment, cw_user = user\<rparr>), d'))))
      | _ \<Rightarrow> (error_json 500 ''Internal server error'', d))))"

definition comments_DELETE :: "env \<Rightarrow> request \<Rightarrow> db \<Rightarrow> response \<times> db" where
  "comments_DELETE e req d =
     (case authenticated (auth_userId req) of
        None \<Rightarrow> (error_json 401 ''Unauthorized'', d)
      | Some clerkUserId \<Rightarrow>
     (case json_body req of
        None \<Rightarrow> (error_json 500 ''Internal server error'', d)
      | Some body \<Rightarrow>
     (case get_field body ''comment_id'' of
        None \<Rightarrow> (error_json 500 ''Internal server error'', d)
      | Some comment_id \<Rightarrow>
     if \<not> truthy comment_id \<or> typeof comment_id \<noteq> ''string''
     then (error_json 400 ''comment_id is required'', d)
     else
     (case current_user e d clerkUserId of
        Inl userError \<Rightarrow> (error_json 404 ''User not found'', d)
      | Inr currentUser \<Rightarrow>
     (case select_single e CommentsSelect
             (filter (\<lambda>c. c_id c = str_of comment_id) (comments d)) of
        Inl commentError \<Rightarrow> (error_json 404 ''Comment not found'', d)
      | Inr comment \<Rightarrow>
     if c_user_id comment \<noteq> currentUser
     then (error_json 403 ''Forbidden: You can only delete your own comments'', d)
     else
     (case delete_comment e d (str_of comment_id) of
        (Some deleteError, d') \<Rightarrow>
          (error_details 500 ''Failed to delete comment'' deleteError, d')
      | (None, d') \<Rightarrow> (ok_json (SuccessMessage ''Comment deleted''), d')))))))"

section \<open>One post: \<open>app/api/posts/[postId]/route.ts\<close>\<close>

definition post_GET :: "env \<Rightarrow> request \<Rightarrow> db \<Rightarrow> response \<times> db" where
  "post_GET e req d =
     (let postId = path_postId req in
      if postId = [] then (error_json 400 ''postId is required'', d)
      else
      (case select_single e PostStatsSelect
              (filter (\<lambda>r. ps_post_id r = postId) (post_stats d)) of
         Inl postStatsError \<Rightarrow> (error_details 404 ''Post not found'' postStatsError, d)
       | Inr postStats \<Rightarrow>
      (case select_single e PostsSelect (filter (\<lambda>p. p_id p = postId) (posts d)) of
         Inl postError \<Rightarrow> (error_details 404 ''Post not found'' postError, d)
       | Inr post \<Rightarrow>
      (case select_single e UsersSelect (filter (\<lambda>u. u_id u = p_user_id post) (users d)) of
         Inl userError \<Rightarrow> (error_details 404 ''User not found'' userError, d)
       | Inr user \<Rightarrow>
      let isLiked =
            (case authenticated (auth_userId req) of
               None \<Rightarrow> False
             | Some clerkUserId \<Rightarrow>
                 (case current_user e d clerkUserId of
                    Inl _ \<Rightarrow> False
                  | Inr currentUser \<Rightarrow>
                      (case select_single e LikesSelect (like_rows d postId currentUser) of
                         Inl _ \<Rightarrow> False
                       | Inr like \<Rightarrow> True)))
      in (ok_json (PostDetail
            \<lparr>pw_id = p_id post, pw_user_id = p_user_id post, pw_image_url = p_image_url post,
             pw_caption = p_caption post, pw_created_at = p_created_at post,
             pw_updated_at = p_updated_at post,
             pw_likes_count = ps_likes_count postStats,
             pw_comments_count = ps_comments_count postStats,
             pw_user = user, pw_is_liked = isLiked\<rparr>), d)))))"

text \<open>
  The first match of \<open>/\/posts\/(.+)$/\<close> in a path name, as its group 1: the dot
  matches no line terminator.
\<close>

fun match_posts_path :: "string \<Rightarrow> string option" where
  "match_posts_path [] = None"
| "match_posts_path (c # cs) =
     (let rest = drop 7 (c # cs) in
      if take 7 (c # cs) = ''/posts/'' \<and> rest \<noteq> []
         \<and> list_all (\<lambda>ch. (of_char ch :: nat) \<noteq> 10 \<and> (of_char ch :: nat) \<noteq> 13) rest
      then Some rest
      else match_posts_path cs)"

definition image_file_path :: "env \<Rightarrow> string \<Rightarrow> string option" where
  "image_file_path e image_url =
     (case url_pathname e image_url of
        None \<Rightarrow> None
      | Some pathname \<Rightarrow>
          (case match_posts_path pathname of
             None \<Rightarrow> None
           | Some g \<Rightarrow> Some (takeWhile (\<lambda>ch. ch \<noteq> CHR ''?'') g)))"

definition post_DELETE :: "env \<Rightarrow> request \<Rightarrow> db \<Rightarrow> response \<times> db" where
  "post_DELETE e req d =
     (case authenticated (auth_userId req) of
        None \<Rightarrow> (error_json 401 ''Unauthorized'', d)
      | Some clerkUserId \<Rightarrow>
     (let postId = path_postId req in
      if postId = [] then (error_json 400 ''postId is required'', d)
      else
      (case current_user e d clerkUserId of
         Inl userError \<Rightarrow> (error_json 404 ''User not found'', d)
       | Inr currentUser \<Rightarrow>
      (case select_single e PostsSelect (filter (\<lambda>p. p_id p = postId) (posts d)) of
         Inl postError \<Rightarrow> (error_details 404 ''Post not found'' postError, d)
       | Inr post \<Rightarrow>
      if p_user_id post \<noteq> currentUser
      then (error_json 403 ''Forbidden: You can only delete your own posts'', d)
      else
      (case (case image_file_path e (p_image_url post) of
               None \<Rightarrow> (Resolved None, d)
             | Some filePath \<Rightarrow>
                 if filePath = [] then (Resolved None, d)
                 else storage_remove e d [filePath]) of
         (Rejected, d1) \<Rightarrow> (error_json 500 ''Internal server error'', d1)
       | (Resolved storageError, d1) \<Rightarrow>
      (case delete_post e d1 postId of
         (Some deleteError, d2) \<Rightarrow>
           (error_details 500 ''Failed to delete post'' deleteError, d2)
       | (None, d2) \<Rightarrow> (ok_json (SuccessMessage ''Post deleted successfully''), d2)))))))"

section \<open>The post collection: list and create\<close>

definition MAX_FILE_SIZE :: nat where
  "MAX_FILE_SIZE = 5 * 1024 * 1024"

definition ALLOWED_MIME_TYPES :: "string list" where
  "ALLOWED_MIME_TYPES = [''image/jpeg'', ''image/png'', ''image/webp'', ''image/gif'']"

definition MAX_CAPTION_LENGTH :: nat where
  "MAX_CAPTION_LENGTH = 2200"

definition request_limit :: "request \<Rightarrow> jsnum" where
  "request_limit req = js_min (parseInt (or_default (query req ''limit'') ''10'')) (Num 50)"

definition request_offset :: "request \<Rightarrow> jsnum" where
  "request_offset req = parseInt (or_default (query req ''offset'') ''0'')"

text \<open>The rows the list query ranges over: the view, filtered by owner when \<open>userId\<close>
  is given, newest first.\<close>

definition listed_rows :: "env \<Rightarrow> request \<Rightarrow> db \<Rightarrow> post_stats_row list" where
  "listed_rows e req d =
     order_created_at_desc e
       (case query req ''userId'' of
          None \<Rightarrow> post_stats d
        | Some userId \<Rightarrow>
            if userId = [] then post_stats d
            else filter (\<lambda>r. ps_user_id r = userId) (post_stats d))"

definition format_post ::
  "(uuid \<Rightarrow> user_row option) \<Rightarrow> uuid list \<Rightarrow> post_stats_row \<Rightarrow> post_with_user" where
  "format_post usersMap likedPostIds post =
     \<lparr>pw_id = ps_post_id post, pw_user_id = ps_user_id post,
      pw_image_url = ps_image_url post, pw_caption = ps_caption post,
      pw_created_at = ps_created_at post, pw_updated_at = ps_created_at post,
      pw_likes_count = ps_likes_count post, pw_comments_count = ps_comments_count post,
      pw_user = (case usersMap (ps_user_id post) of
                   Some user \<Rightarrow> user
                 | None \<Rightarrow> \<lparr>u_id = ps_user_id post, u_clerk_id = [], u_name = ''Unknown'',
                             u_created_at = ps_created_at post\<rparr>),
      pw_is_liked = (ps_post_id post \<in> set likedPostIds)\<rparr>"

definition posts_GET :: "env \<Rightarrow> request \<Rightarrow> db \<Rightarrow> response \<times> db" where
  "posts_GET e req d =
     (case authenticated (auth_userId req) of
        None \<Rightarrow> (error_json 401 ''Unauthorized'', d)
      | Some clerkUserId \<Rightarrow>
     (let limit = request_limit req; offset = request_offset req in
      (case current_user e d clerkUserId of
         Inl userError \<Rightarrow> (error_json 404 ''User not found'', d)
       | Inr currentUser \<Rightarrow>
      (case range_query e PostStatsSelect offset (js_sub (js_add offset limit) (Num 1))
              (listed_rows e req d) of
         Inl postsError \<Rightarrow> (error_details 500 ''Failed to fetch posts'' postsError, d)
       | Inr page \<Rightarrow>
      let userIds = remdups (map ps_user_id page);
          usersMap =
            (if userIds \<noteq> []
             then (case select_rows e UsersSelect
                          (filter (\<lambda>u. u_id u \<in> set userIds) (users d)) of
                     Inl usersError \<Rightarrow> Map.empty
                   | Inr us \<Rightarrow> map_of (rev (map (\<lambda>u. (u_id u, u)) us)))
             else Map.empty);
          postIds = map ps_post_id page;
          likedPostIds =
            (if postIds \<noteq> []
             then (case select_rows e LikesSelect
                          (filter (\<lambda>l. l_user_id l = currentUser \<and> l_post_id l \<in> set postIds)
                             (likes d)) of
                     Inl _ \<Rightarrow> []
                   | Inr ls \<Rightarrow> map l_post_id ls)
             else []);
          formattedPosts = map (format_post usersMap likedPostIds) page;
          hasMore = (Num (int (length formattedPosts)) = limit)
      in (ok_json (PostList formattedPosts hasMore
                     (if hasMore then Some (js_add offset limit) else None)), d)))))"

text \<open>\<open>image.name.split(".").pop() || "jpg"\<close>\<close>

definition file_ext :: "string \<Rightarrow> string" where
  "file_ext name =
     (let last_part = rev (takeWhile (\<lambda>ch. ch \<noteq> CHR ''.'') (rev name))
      in if last_part = [] then ''jpg'' else last_part)"

text \<open>
  \<open>formData.get("image")\<close> is cast to a file without a check: a text field has
  neither \<open>size\<close> nor \<open>type\<close>, so it passes the size check and fails the type check; a
  file sent as the caption has no \<open>trim\<close>, and the call throws.
\<close>

definition posts_POST :: "env \<Rightarrow> request \<Rightarrow> db \<Rightarrow> response \<times> db" where
  "posts_POST e req d =
     (case authenticated (auth_userId req) of
        None \<Rightarrow> (error_json 401 ''Unauthorized'', d)
      | Some clerkUserId \<Rightarrow>
     (case form req of
        None \<Rightarrow> (error_json 500 ''Internal server error'', d)
      | Some formData \<Rightarrow>
     (case formData ''image'' of
        None \<Rightarrow> (error_json 400 ''Image is required'', d)
      | Some (TextValue t) \<Rightarrow>
          if t = [] then (error_json 400 ''Image is required'', d)
          else (error_json 400
                  ''Invalid file type. Only JPEG, PNG, WebP, and GIF are allowed'', d)
      | Some (FileValue img) \<Rightarrow>
     if file_size img > MAX_FILE_SIZE
     then (error_json 400
             (''File size exceeds '' @ decimal (MAX_FILE_SIZE div 1024 div 1024) @ ''MB limit''), d)
     else if file_type img \<notin> set ALLOWED_MIME_TYPES
     then (error_json 400 ''Invalid file type. Only JPEG, PNG, WebP, and GIF are allowed'', d)
     else
     (case formData ''caption'' of
        Some (FileValue _) \<Rightarrow> (error_json 500 ''Internal server error'', d)
      | caption \<Rightarrow>
     (let captionText =
            (case caption of
               Some (TextValue t) \<Rightarrow> if trim t = [] then None else Some (trim t)
             | _ \<Rightarrow> None)
      in
      if (case captionText of Some t \<Rightarrow> length t > MAX_CAPTION_LENGTH | None \<Rightarrow> False)
      then (error_json 400
              (''Caption exceeds '' @ decimal MAX_CAPTION_LENGTH @ '' characters''), d)
      else
      (case current_user e d clerkUserId of
         Inl userError \<Rightarrow> (error_json 404 ''User not found'', d)
       | Inr currentUser \<Rightarrow>
      (let fileExt = file_ext (file_name img);
           fileName = date_now_random e @ ''.'' @ fileExt;
           filePath = clerkUserId @ ''/'' @ fileName
       in
       (case storage_upload e d filePath of
          (Some uploadError, d1) \<Rightarrow>
            (error_details 500 ''Failed to upload image'' uploadError, d1)
        | (None, d1) \<Rightarrow>
       (let imageUrl = public_url e filePath in
        (case insert_post e d1 currentUser imageUrl captionText of
           (Inl postError, d2) \<Rightarrow>
             (error_details 500 ''Failed to create post'' postError,
              snd (storage_remove e d2 [filePath]))
         | (Inr post, d2) \<Rightarrow> (ok_json (CreatedPost post), d2)))))))))))"

section \<open>A client that reads the whole feed\<close>



section \<open>The feed as the specification describes it\<close>


section \<open>Integrity of the tables\<close>

text \<open>The unique key of the likes table, as a property of a database state.\<close>

definition likes_unique :: "db \<Rightarrow> bool" where
  "likes_unique d = distinct (map (\<lambda>l. (l_post_id l, l_user_id l)) (likes d))"

section \<open>Example data\<close>

definition alice :: user_row where
  "alice = \<lparr>u_id = ''u1'', u_clerk_id = ''ca'', u_name = ''Alice'', u_created_at = 1\<rparr>"

definition bob :: user_row where
  "bob = \<lparr>u_id = ''u2'', u_clerk_id = ''cb'', u_name = ''Bob'', u_created_at = 2\<rparr>"

definition post1 :: post_row where
  "post1 = \<lparr>p_id = ''p1'', p_user_id = ''u1'', p_image_url = ''https://s/posts/ca/1.jpg'',
            p_caption = Some ''first'', p_created_at = 10, p_updated_at = 15\<rparr>"

definition post2 :: post_row where
  "post2 = \<lparr>p_id = ''p2'', p_user_id = ''u2'', p_image_url = ''https://s/posts/cb/2.png'',
            p_caption = None, p_created_at = 20, p_updated_at = 20\<rparr>"

definition like1 :: like_row where
  "like1 = \<lparr>l_id = ''l1'', l_post_id = ''p1'', l_user_id = ''u2'', l_created_at = 30\<rparr>"

definition comment1 :: comment_row where
  "comment1 = \<lparr>c_id = ''c1'', c_post_id = ''p1'', c_user_id = ''u1'', c_content = ''hi'',
               c_created_at = 40, c_updated_at = 40\<rparr>"

definition db0 :: db where
  "db0 = \<lparr>users = [alice, bob], posts = [post1, post2], likes = [like1],
          comments = [comment1], follows = [], bucket = [''ca/1.jpg'', ''cb/2.png'']\<rparr>"

text \<open>An environment in which every call succeeds.\<close>

definition env0 :: env where
  "env0 = \<lparr>failure = (\<lambda>_. None), remove_rejects = False, gen_uuid = ''n1'', now = 100,
           date_now_random = ''17-ab'',
           public_url = (\<lambda>path. ''https://s/posts/'' @ path),
           url_pathname = (\<lambda>s. if take 10 s = ''https://s/'' then Some (drop 9 s) else None),
           tie_break = (\<lambda>_. 0)\<rparr>"

definition req0 :: request where
  "req0 = \<lparr>auth_userId = None, json_body = None, query = (\<lambda>_. None), form = None,
           path_postId = []\<rparr>"

definition json_request :: "string \<Rightarrow> (string \<times> jsval) list \<Rightarrow> request" where
  "json_request clerk kvs = req0\<lparr>auth_userId := Some clerk, json_body := Some (JObj kvs)\<rparr>"

definition list_request :: "string \<Rightarrow> (string \<times> string) list \<Rightarrow> request" where
  "list_request clerk params = req0\<lparr>auth_userId := Some clerk, query := map_of params\<rparr>"

definition delete_post_request :: "string \<Rightarrow> string \<Rightarrow> request" where
  "delete_post_request clerk pid = req0\<lparr>auth_userId := Some clerk, path_postId := pid\<rparr>"

definition upload_request ::
  "string option \<Rightarrow> image_file \<Rightarrow> string option \<Rightarrow> request" where
  "upload_request subject img caption =
     req0\<lparr>auth_userId := subject,
          form := Some (\<lambda>k. if k = ''image'' then Some (FileValue img)
                             else if k = ''caption'' then map_option TextValue caption
                             else None)\<rparr>"

definition photo :: "nat \<Rightarrow> string \<Rightarrow> image_file" where
  "photo bytes mime = \<lparr>file_name = ''cat.jpg'', file_size = bytes, file_type = mime\<rparr>"

definition detail_request :: "string \<Rightarrow> request" where
  "detail_request pid = req0\<lparr>path_postId := pid\<rparr>"

definition listed_p1 :: post_with_user where
  "listed_p1 = \<lparr>pw_id = ''p1'', pw_user_id = ''u1'', pw_image_url = ''https://s/posts/ca/1.jpg'',
      pw_caption = Some ''first'', pw_created_at = 10, pw_updated_at = 10, pw_likes_count = 1,
      pw_comments_count = 1, pw_user = alice, pw_is_liked = True\<rparr>"

definition listed_p2 :: post_with_user where
  "listed_p2 = \<lparr>pw_id = ''p2'', pw_user_id = ''u2'', pw_image_url = ''https://s/posts/cb/2.png'',
      pw_caption = None, pw_created_at = 20, pw_updated_at = 20, pw_likes_count = 0,
      pw_comments_count = 0, pw_user = bob, pw_is_liked = False\<rparr>"

definition detail_p1 :: post_with_user where
  "detail_p1 = \<lparr>pw_id = ''p1'', pw_user_id = ''u1'', pw_image_url = ''https://s/posts/ca/1.jpg'',
      pw_caption = Some ''first'', pw_created_at = 10, pw_updated_at = 15, pw_likes_count = 1,
      pw_comments_count = 1, pw_user = alice, pw_is_liked = False\<rparr>"

text \<open>The environment in which the calls of one kind fail with a given error.\<close>

definition failing :: "db_op \<Rightarrow> pg_error \<Rightarrow> env" where
  "failing op err = env0\<lparr>failure := (\<lambda>x. if x = op then Some err else None)\<rparr>"

section \<open>Helper lemmas\<close>

lemmas example_defs =
  json_request_def list_request_def req0_def env0_def db0_def alice_def bob_def post1_def post2_def
  like1_def comment1_def failing_def

lemmas query_defs = current_user_def select_single_def select_rows_def single_def

lemma distinct_key_filter:
  "distinct (map f xs) \<Longrightarrow> length (filter (\<lambda>x. f x = k) xs) \<le> 1"
proof (induction xs)
  case Nil
  then show ?case by simp
next
  case (Cons a xs)
  show ?case
  proof (cases "f a = k")
    case True
    from Cons.prems have "f a \<notin> f ` set xs" by simp
    with True have "\<forall>x\<in>set xs. f x \<noteq> k" by blast
    then have "filter (\<lambda>x. f x = k) xs = []"
      by (simp add: filter_empty_conv)
    with True show ?thesis by simp
  next
    case False
    with Cons show ?thesis by simp
  qed
qed

lemma like_rows_unique:
  assumes "likes_unique d"
  shows "length (like_rows d p u) \<le> 1"
proof -
  have "like_rows d p u = filter (\<lambda>l. (l_post_id l, l_user_id l) = (p, u)) (likes d)"
    by (simp add: like_rows_def)
  then show ?thesis
    using distinct_key_filter [OF assms [unfolded likes_unique_def], of "(p, u)"] by simp
qed

lemma current_user_likes [simp]:
  "current_user e (d\<lparr>likes := ls\<rparr>) c = current_user e d c"
  by (simp add: current_user_def)

lemma current_user_db0_bob: "current_user env0 db0 ''cb'' = Inr ''u2''"
  by (simp add: current_user_def select_single_def single_def env0_def db0_def alice_def bob_def)

lemma current_user_db0_alice: "current_user env0 db0 ''ca'' = Inr ''u1''"
  by (simp add: current_user_def select_single_def single_def env0_def db0_def alice_def bob_def)

lemma round_double_exact: "\<bar>n\<bar> \<le> 2 ^ 53 \<Longrightarrow> round_double n = Num n"
  by (simp add: round_double_def Let_def nat_le_iff)

lemma bit_length_lower: "0 < n \<Longrightarrow> 2 ^ (bit_length n - 1) \<le> n"
proof (induction n rule: bit_length.induct)
  case (1 n)
  show ?case
  proof (cases "n div 2 = 0")
    case True
    with "1.prems" show ?thesis by (simp add: bit_length.simps [of n] bit_length.simps [of 0])
  next
    case False
    with "1.IH" "1.prems" have "2 ^ (bit_length (n div 2) - 1) \<le> n div 2" by simp
    moreover have "bit_length (n div 2) > 0" using False by (simp add: bit_length.simps [of "n div 2"])
    ultimately have "2 ^ bit_length (n div 2) \<le> 2 * (n div 2)"
      by (cases "bit_length (n div 2)") auto
    then show ?thesis using "1.prems" by (simp add: bit_length.simps [of n])
  qed
qed

lemma bit_length_upper: "n < 2 ^ bit_length n"
proof (induction n rule: bit_length.induct)
  case (1 n)
  show ?case
  proof (cases "n = 0")
    case True
    then show ?thesis by simp
  next
    case False
    with "1.IH" have "n div 2 < 2 ^ bit_length (n div 2)" by simp
    then show ?thesis using False by (simp add: bit_length.simps [of n])
  qed
qed

lemma round_double_big:
  assumes "2 ^ 53 < n"
  shows "round_double n = PosInf \<or> (\<exists>m. round_double n = Num m \<and> 2 ^ 52 \<le> m)"
proof -
  define a where "a = nat \<bar>n\<bar>"
  define e where "e = bit_length a - 53"
  define q where "q = a div 2 ^ e"
  define q' where
    "q' = (if 2 * (a mod 2 ^ e) > 2 ^ e \<or> (2 * (a mod 2 ^ e) = 2 ^ e \<and> odd q) then q + 1 else q)"
  have a: "2 ^ 53 < a" using assms by (simp add: a_def nat_less_iff)
  then have pos: "0 < a" by simp
  have up: "a < 2 ^ bit_length a" by (rule bit_length_upper)
  have k: "53 < bit_length a"
  proof (rule ccontr)
    assume "\<not> 53 < bit_length a"
    then have "bit_length a \<le> 53" by simp
    then have "(2::nat) ^ bit_length a \<le> 2 ^ 53" by (rule power_increasing) simp
    with up have "a < 2 ^ 53" by (rule less_le_trans)
    with a show False by (rule less_asym)
  qed
  have "2 ^ (bit_length a - 1) \<le> a" using pos by (rule bit_length_lower)
  then have "2 ^ (bit_length a - 1) div 2 ^ e \<le> q" unfolding q_def by (rule div_le_mono)
  moreover have "(2::nat) ^ (bit_length a - 1) div 2 ^ e = 2 ^ 52"
  proof -
    have "bit_length a - 1 = 52 + e" using k by (simp add: e_def)
    then show ?thesis by (simp only: power_add) simp
  qed
  ultimately have q: "2 ^ 52 \<le> q" by (simp only:)
  have "q \<le> q'" by (simp add: q'_def)
  with q have "2 ^ 52 \<le> q'" by (rule le_trans)
  moreover have "(1::nat) \<le> 2 ^ e" by simp
  ultimately have "2 ^ 52 * 1 \<le> q' * 2 ^ e" by (rule mult_le_mono)
  then have "int (2 ^ 52) \<le> int (q' * 2 ^ e)" by (simp only: of_nat_le_iff mult_1_right)
  then have m: "2 ^ 52 \<le> int (q' * 2 ^ e)" by (simp only: of_nat_power of_nat_numeral)
  have big: "\<not> a \<le> 2 ^ 53" using a by (simp only: not_le)
  have n: "\<not> n < 0" using assms by simp
  have "round_double n =
          (if q' * 2 ^ e \<ge> 2 ^ 1024 then PosInf else Num (int (q' * 2 ^ e)))"
    unfolding round_double_def Let_def a_def [symmetric] e_def [symmetric] q_def [symmetric]
      q'_def [symmetric]
    using big n by (simp only: if_False mult_1)
  then have "round_double n = PosInf \<or> round_double n = Num (int (q' * 2 ^ e))"
    by (cases "q' * 2 ^ e \<ge> 2 ^ 1024") (simp_all only: if_True if_False simp_thms)
  with m show ?thesis by blast
qed

lemma js_min_round_double: "0 \<le> n \<Longrightarrow> js_min (round_double n) (Num 50) = Num (min n 50)"
proof (cases "n \<le> 2 ^ 53")
  case True
  assume "0 \<le> n"
  with True show ?thesis by (simp add: round_double_exact)
next
  case False
  then have "2 ^ 53 < n" by simp
  from round_double_big [OF this] False show ?thesis by auto
qed

lemma decimal_digits: "c \<in> set (decimal n) \<Longrightarrow> 48 \<le> (of_char c :: nat) \<and> (of_char c :: nat) \<le> 57"
proof (induction n rule: decimal.induct)
  case (1 n)
  show ?case
  proof (cases "n < 10")
    case True
    with "1.prems" have "c = char_of (48 + n)" by (simp add: decimal.simps)
    with True show ?thesis by simp
  next
    case False
    with "1.prems" have "c \<in> set (decimal (n div 10)) \<or> c = char_of (48 + n mod 10)"
      by (subst (asm) decimal.simps) auto
    then show ?thesis
    proof
      assume "c \<in> set (decimal (n div 10))"
      with "1.IH" False show ?thesis by simp
    next
      assume c: "c = char_of (48 + n mod 10)"
      have "(48 + n mod 10) mod 256 = 48 + n mod 10" by simp
      with c show ?thesis by simp
    qed
  qed
qed

lemma decimal_nonempty: "decimal n \<noteq> []"
  by (subst decimal.simps) simp

lemma digit_val_dec: "48 \<le> (of_char c :: nat) \<Longrightarrow> (of_char c :: nat) \<le> 57 \<Longrightarrow> digit_val c = Some (of_char c - 48)"
  by (simp add: digit_val_def)

lemma digits_value_decimal: "digits_value 10 (decimal n) = n"
proof (induction n rule: decimal.induct)
  case (1 n)
  show ?case
  proof (cases "n < 10")
    case True
    then show ?thesis by (simp add: decimal.simps digits_value_def digit_val_def Let_def)
  next
    case False
    have m: "(48 + n mod 10) mod 256 = 48 + n mod 10" by simp
    have "digits_value 10 (decimal n) = 10 * digits_value 10 (decimal (n div 10)) + n mod 10"
      using False by (subst decimal.simps) (simp add: digits_value_def digit_val_def m Let_def)
    with "1.IH" False show ?thesis by simp
  qed
qed

lemma parseInt_decimal: "parseInt (decimal n) = round_double (int n)"
proof -
  let ?s = "decimal n"
  have dig: "\<And>c. c \<in> set ?s \<Longrightarrow> 48 \<le> (of_char c :: nat) \<and> (of_char c :: nat) \<le> 57"
    by (rule decimal_digits)
  obtain c cs where s: "?s = c # cs" using decimal_nonempty [of n] by (cases ?s) auto
  have c: "48 \<le> (of_char c :: nat) \<and> (of_char c :: nat) \<le> 57" using dig s by simp
  have nsp: "\<not> is_js_space c" using c by (auto simp: is_js_space_def)
  have S: "dropWhile is_js_space ?s = ?s" using s nsp by simp
  have sign: "take 1 ?s \<noteq> ''-''" "take 1 ?s \<noteq> ''+''" using s c by auto
  have hex: "take 2 ?s \<noteq> ''0x''" "take 2 ?s \<noteq> ''0X''"
  proof -
    { fix x assume "take 2 ?s = [CHR ''0'', x]" "x = CHR ''x'' \<or> x = CHR ''X''"
      then have "x \<in> set ?s" by (metis in_set_takeD list.set_intros(1,2))
      with dig have "48 \<le> (of_char x :: nat) \<and> (of_char x :: nat) \<le> 57" by blast
      with \<open>x = CHR ''x'' \<or> x = CHR ''X''\<close> have False by auto }
    then show "take 2 ?s \<noteq> ''0x''" "take 2 ?s \<noteq> ''0X''" by blast+
  qed
  have "is_digit 10 x" if "x \<in> set ?s" for x
  proof -
    from dig [OF that] have "digit_val x = Some (of_char x - 48)" "(of_char x :: nat) - 48 < 10"
      by (auto simp: digit_val_dec)
    then show ?thesis by (simp add: is_digit_def)
  qed
  then have all: "takeWhile (is_digit 10) ?s = ?s"
    by (simp add: takeWhile_eq_all_conv)
  show ?thesis
    using sign hex decimal_nonempty [of n]
    by (simp add: parseInt_def Let_def S all digits_value_decimal)
qed

lemma parseInt_decimal_exact: "int n \<le> 2 ^ 53 \<Longrightarrow> parseInt (decimal n) = Num (int n)"
  by (simp add: parseInt_decimal round_double_exact)







lemma pw_id_format_post [simp]: "pw_id (format_post um lk x) = ps_post_id x"
  by (simp add: format_post_def)



lemma range_query_Inr:
  assumes "range_query e op from to rows = Inr r"
  shows "\<exists>off lim. from = Num off \<and> js_add (js_sub to from) (Num 1) = Num lim
           \<and> 0 \<le> off \<and> 0 \<le> lim \<and> r = take (nat lim) (drop (nat off) rows)"
  using assms
  by (auto simp: range_query_def split: option.splits jsnum.splits if_splits)

lemma posts_GET_PostList:
  assumes "posts_GET e req d = (Response st (PostList page hm nxt), d')"
  shows "\<exists>rows um lk.
           range_query e PostStatsSelect (request_offset req)
             (js_sub (js_add (request_offset req) (request_limit req)) (Num 1))
             (listed_rows e req d) = Inr rows
         \<and> page = map (format_post um lk) rows
         \<and> hm = (Num (int (length page)) = request_limit req)
         \<and> nxt = (if hm then Some (js_add (request_offset req) (request_limit req)) else None)
         \<and> st = 200 \<and> d' = d"
  using assms
  by (auto simp: posts_GET_def Let_def error_json_def error_details_def ok_json_def
           split: option.splits sum.splits)

lemma request_limit_cases:
  "request_limit req = NaN \<or> request_limit req = NegInf
     \<or> (\<exists>l. request_limit req = Num l \<and> l \<le> 50)"
  by (cases "parseInt (or_default (query req ''limit'') ''10'')") (auto simp: request_limit_def)

lemma set_listed_rows: "set (listed_rows e req d) \<subseteq> set (post_stats d)"
  by (auto simp: listed_rows_def order_created_at_desc_def split: option.splits)

lemmas parse_defs = parseInt_def is_js_space_def is_digit_def digit_val_def digits_value_def
  round_double_def

lemma decimal_70: "decimal 70 = ''70''" by code_simp
lemma decimal_1: "decimal 1 = ''1''" "decimal (Suc 0) = ''1''" by code_simp+

lemmas response_defs = error_json_def error_details_def ok_json_def

lemma post_DELETE_changes:
  assumes "snd (post_DELETE e req d) \<noteq> d \<or> status (fst (post_DELETE e req d)) = 200"
  shows "\<exists>c u post. authenticated (auth_userId req) = Some c \<and> current_user e d c = Inr u
          \<and> select_single e PostsSelect (filter (\<lambda>x. p_id x = path_postId req) (posts d)) = Inr post
          \<and> p_user_id post = u"
  using assms
  by (auto simp: post_DELETE_def Let_def response_defs
           split: option.splits sum.splits if_splits prod.splits promise.splits)

lemma comments_DELETE_changes:
  assumes "snd (comments_DELETE e req d) \<noteq> d \<or> status (fst (comments_DELETE e req d)) = 200"
  shows "\<exists>c u b cid comment. authenticated (auth_userId req) = Some c \<and> current_user e d c = Inr u
          \<and> json_body req = Some b \<and> get_field b ''comment_id'' = Some cid
          \<and> select_single e CommentsSelect (filter (\<lambda>x. c_id x = str_of cid) (comments d)) = Inr comment
          \<and> c_user_id comment = u"
  using assms
  by (auto simp: comments_DELETE_def Let_def response_defs
           split: option.splits sum.splits if_splits prod.splits)

lemma post_DELETE_owner_example:
  "post_DELETE env0 (delete_post_request ''ca'' ''p1'') db0 =
     (Response 200 (SuccessMessage ''Post deleted successfully''),
      \<lparr>users = [alice, bob], posts = [post2], likes = [], comments = [], follows = [],
       bucket = [''cb/2.png'']\<rparr>)"
  apply (simp add: post_DELETE_def delete_post_request_def req0_def current_user_db0_alice Let_def)
  apply (simp add: select_single_def single_def env0_def db0_def post1_def post2_def
           image_file_path_def storage_remove_def delete_post_def ok_json_def like1_def comment1_def)
  done

lemma decimal_5: "decimal 5 = ''5''"
  by code_simp

lemma size_message: "decimal (MAX_FILE_SIZE div 1024 div 1024) = ''5''" "decimal 5 = ''5''"
  by (simp_all add: MAX_FILE_SIZE_def decimal_5)

lemma caption_message: "decimal MAX_CAPTION_LENGTH = ''2200''"
  by code_simp

lemma trim_replicate_a: "trim (replicate n (CHR ''a'')) = replicate n (CHR ''a'')"
  by (simp add: trim_def is_js_space_def dropWhile_replicate)

lemma current_user_no_row:
  assumes "filter (\<lambda>x. u_clerk_id x = c) (users d) = []"
  shows "\<exists>err. current_user e d c = Inl err"
  using assms by (simp add: current_user_def select_single_def single_def split: option.splits)

lemma posts_GET_rows:
  assumes "posts_GET e req d = (Response st (PostList page hm nxt), d')"
      and "x \<in> set page"
  shows "\<exists>r \<in> set (post_stats d). \<exists>um lk. x = format_post um lk r"
proof -
  from posts_GET_PostList [OF assms(1)] obtain rows um lk where
    r: "range_query e PostStatsSelect (request_offset req)
          (js_sub (js_add (request_offset req) (request_limit req)) (Num 1))
          (listed_rows e req d) = Inr rows"
    and p: "page = map (format_post um lk) rows" by blast
  from range_query_Inr [OF r] have "set rows \<subseteq> set (listed_rows e req d)"
    by (auto dest: in_set_takeD in_set_dropD)
  with set_listed_rows [of e req d] p assms(2) show ?thesis by auto
qed

lemma posts_GET_db0:
  "posts_GET env0 (list_request ''cb'' []) db0 =
     (Response 200 (PostList [listed_p2, listed_p1] False None), db0)"
proof -
  have l: "request_limit (list_request ''cb'' []) = Num 10"
    and o: "request_offset (list_request ''cb'' []) = Num 0"
    by (simp_all add: request_limit_def request_offset_def list_request_def req0_def parse_defs)
  have a: "authenticated (auth_userId (list_request ''cb'' [])) = Some ''cb''"
    by (simp add: list_request_def req0_def)
  have rd: "round_double 0 = Num 0" "round_double 9 = Num 9" "round_double 10 = Num 10"
    by (simp_all add: round_double_def)
  have rows: "listed_rows env0 (list_request ''cb'' []) db0 =
     [\<lparr>ps_post_id = ''p2'', ps_user_id = ''u2'', ps_image_url = ''https://s/posts/cb/2.png'',
       ps_caption = None, ps_created_at = 20, ps_likes_count = 0, ps_comments_count = 0\<rparr>,
      \<lparr>ps_post_id = ''p1'', ps_user_id = ''u1'', ps_image_url = ''https://s/posts/ca/1.jpg'',
       ps_caption = Some ''first'', ps_created_at = 10, ps_likes_count = 1,
       ps_comments_count = 1\<rparr>]"
    by (simp add: listed_rows_def list_request_def req0_def post_stats_def
          order_created_at_desc_def db0_def post1_def post2_def like1_def comment1_def env0_def)
  show ?thesis
    apply (simp add: posts_GET_def a l o rows current_user_db0_bob range_query_def rd)
    apply (simp add: env0_def rd)
    apply (simp add: Let_def select_rows_def format_post_def ok_json_def db0_def alice_def
             bob_def like1_def listed_p1_def listed_p2_def rd)
    done
qed

lemma post_GET_db0:
  "post_GET env0 (detail_request ''p1'') db0 = (Response 200 (PostDetail detail_p1), db0)"
  by (simp add: post_GET_def detail_request_def req0_def Let_def select_single_def single_def
        env0_def post_stats_def db0_def post1_def post2_def like1_def comment1_def alice_def
        bob_def ok_json_def detail_p1_def)

section \<open>Likes\<close>

text \<open>
  Claim C1.  Let the requester be authenticated and resolve to the user \<open>u\<close>, and let
  \<open>post_id = p\<close> name an existing post.  If a like row for \<open>(p, u)\<close> is stored,
  \<open>POST /likes\<close> answers 409 "Already liked" and leaves the database as it was, so
  that under the unique key exactly one such row is stored.  If none is stored, the
  request answers with success and the new row, which is then the only row for
  \<open>(p, u)\<close>, and a second request answers 409 and changes nothing.  Whenever the insert
  reports an error, code 23505 becomes 409 and any other code the generic 500.
\<close>

theorem likes_POST_conflict:
  assumes "authenticated (auth_userId req) = Some c"
      and "json_body req = Some b"
      and "get_field b ''post_id'' = Some (JStr p)"
      and "p \<noteq> []"
      and "current_user e d c = Inr u"
      and "select_single e PostsSelect (filter (\<lambda>x. p_id x = p) (posts d)) = Inr post"
  shows "(failure e LikesInsert = None \<and> like_rows d p u \<noteq> [] \<longrightarrow>
            likes_POST e req d = (error_json 409 ''Already liked'', d)
            \<and> (likes_unique d \<longrightarrow> length (like_rows d p u) = 1))
       \<and> (failure e LikesInsert = None \<and> like_rows d p u = [] \<longrightarrow>
            (let row = \<lparr>l_id = gen_uuid e, l_post_id = p, l_user_id = u, l_created_at = now e\<rparr>;
                 d' = d\<lparr>likes := likes d @ [row]\<rparr>
             in likes_POST e req d = (ok_json (CreatedLike row), d')
                \<and> like_rows d' p u = [row]
                \<and> likes_POST e req d' = (error_json 409 ''Already liked'', d')))
       \<and> (\<forall>err. failure e LikesInsert = Some err \<longrightarrow>
            likes_POST e req d =
              (if code err = ''23505'' then error_json 409 ''Already liked''
               else error_details 500 ''Failed to add like'' err, d))"
proof (intro conjI impI allI)
  assume a: "failure e LikesInsert = None \<and> like_rows d p u \<noteq> []"
  then show "likes_POST e req d = (error_json 409 ''Already liked'', d)"
    using assms by (simp add: likes_POST_def insert_like_def)
  assume "likes_unique d"
  from like_rows_unique [OF this, of p u] a show "length (like_rows d p u) = 1"
    by (cases "like_rows d p u") auto
next
  assume a: "failure e LikesInsert = None \<and> like_rows d p u = []"
  show "let row = \<lparr>l_id = gen_uuid e, l_post_id = p, l_user_id = u, l_created_at = now e\<rparr>;
            d' = d\<lparr>likes := likes d @ [row]\<rparr>
        in likes_POST e req d = (ok_json (CreatedLike row), d')
           \<and> like_rows d' p u = [row]
           \<and> likes_POST e req d' = (error_json 409 ''Already liked'', d')"
    using assms a by (simp add: likes_POST_def insert_like_def Let_def like_rows_def)
next
  fix err
  assume "failure e LikesInsert = Some err"
  then show "likes_POST e req d =
               (if code err = ''23505'' then error_json 409 ''Already liked''
                else error_details 500 ''Failed to add like'' err, d)"
    using assms by (simp add: likes_POST_def insert_like_def)
qed

theorem likes_POST_conflict_witness:
  "likes_POST env0 (json_request ''cb'' [(''post_id'', JStr ''p1'')]) db0
     = (error_json 409 ''Already liked'', db0)
   \<and> length (like_rows db0 ''p1'' ''u2'') = 1
   \<and> likes_POST env0 (json_request ''cb'' [(''post_id'', JStr ''p2'')]) db0
     = (ok_json (CreatedLike \<lparr>l_id = ''n1'', l_post_id = ''p2'', l_user_id = ''u2'',
                              l_created_at = 100\<rparr>),
        db0\<lparr>likes := [like1, \<lparr>l_id = ''n1'', l_post_id = ''p2'', l_user_id = ''u2'',
                                l_created_at = 100\<rparr>]\<rparr>)
   \<and> likes_POST (failing LikesInsert (PgError ''23505'' ''duplicate''))
        (json_request ''cb'' [(''post_id'', JStr ''p2'')]) db0
     = (error_json 409 ''Already liked'', db0)
   \<and> likes_POST (failing LikesInsert (PgError ''57014'' ''timeout''))
        (json_request ''cb'' [(''post_id'', JStr ''p2'')]) db0
     = (Response 500 (ErrorBody ''Failed to add like'' (Some ''timeout'')), db0)"
  using likes_POST_conflict [where req = "json_request ''cb'' [(''post_id'', JStr ''p1'')]"
          and c = "''cb''" and b = "JObj [(''post_id'', JStr ''p1'')]" and p = "''p1''"
          and e = env0 and d = db0 and u = "''u2''" and post = post1]
        likes_POST_conflict [where req = "json_request ''cb'' [(''post_id'', JStr ''p2'')]"
          and c = "''cb''" and b = "JObj [(''post_id'', JStr ''p2'')]" and p = "''p2''"
          and e = env0 and d = db0 and u = "''u2''" and post = post2]
        likes_POST_conflict [where req = "json_request ''cb'' [(''post_id'', JStr ''p2'')]"
          and c = "''cb''" and b = "JObj [(''post_id'', JStr ''p2'')]" and p = "''p2''"
          and e = "failing LikesInsert (PgError ''23505'' ''duplicate'')" and d = db0
          and u = "''u2''" and post = post2]
        likes_POST_conflict [where req = "json_request ''cb'' [(''post_id'', JStr ''p2'')]"
          and c = "''cb''" and b = "JObj [(''post_id'', JStr ''p2'')]" and p = "''p2''"
          and e = "failing LikesInsert (PgError ''57014'' ''timeout'')" and d = db0
          and u = "''u2''" and post = post2]
  by (simp add: example_defs query_defs like_rows_def likes_unique_def Let_def
        error_details_def)

text \<open>
  Claim C7.  For an authenticated requester who resolves to the user \<open>u\<close> and a
  \<open>post_id = p\<close>, \<open>DELETE /likes\<close> answers with success and the message
  "Like removed" whether or not a like row for \<open>(p, u)\<close> is stored; it removes exactly
  the rows for \<open>(p, u)\<close>, none is left afterwards, and a repeated request gives the same
  response and the same database.
\<close>

theorem likes_DELETE_idempotent:
  assumes "authenticated (auth_userId req) = Some c"
      and "json_body req = Some b"
      and "get_field b ''post_id'' = Some (JStr p)"
      and "p \<noteq> []"
      and "current_user e d c = Inr u"
      and "failure e LikesDelete = None"
  shows "let d' = d\<lparr>likes := filter (\<lambda>l. \<not> (l_post_id l = p \<and> l_user_id l = u)) (likes d)\<rparr>
         in likes_DELETE e req d = (ok_json (SuccessMessage ''Like removed''), d')
            \<and> like_rows d' p u = []
            \<and> likes_DELETE e req d' = (ok_json (SuccessMessage ''Like removed''), d')"
  using assms
  by (simp add: likes_DELETE_def delete_likes_def like_rows_def Let_def)

theorem likes_DELETE_idempotent_witness:
  "likes_DELETE env0 (json_request ''cb'' [(''post_id'', JStr ''p1'')]) db0
     = (ok_json (SuccessMessage ''Like removed''), db0\<lparr>likes := []\<rparr>)
   \<and> likes_DELETE env0 (json_request ''cb'' [(''post_id'', JStr ''p1'')]) (db0\<lparr>likes := []\<rparr>)
     = (ok_json (SuccessMessage ''Like removed''), db0\<lparr>likes := []\<rparr>)
   \<and> likes_DELETE env0 (json_request ''cb'' [(''post_id'', JStr ''p2'')]) db0
     = (ok_json (SuccessMessage ''Like removed''), db0)"
  using likes_DELETE_idempotent [where req = "json_request ''cb'' [(''post_id'', JStr ''p1'')]"
          and c = "''cb''" and b = "JObj [(''post_id'', JStr ''p1'')]" and p = "''p1''"
          and e = env0 and d = db0 and u = "''u2''"]
        likes_DELETE_idempotent [where req = "json_request ''cb'' [(''post_id'', JStr ''p2'')]"
          and c = "''cb''" and b = "JObj [(''post_id'', JStr ''p2'')]" and p = "''p2''"
          and e = env0 and d = db0 and u = "''u2''"]
  by (simp add: example_defs query_defs Let_def)

section \<open>Follows\<close>

text \<open>
  Claim C8.  For an authenticated requester who resolves to the user \<open>u\<close>,
  \<open>POST /follows\<close> with \<open>following_id = u\<close> answers 400 "Cannot follow yourself" and
  leaves the database, so also the follows table, as it was.
\<close>

theorem follows_POST_self:
  assumes "authenticated (auth_userId req) = Some c"
      and "json_body req = Some b"
      and "get_field b ''following_id'' = Some (JStr u)"
      and "u \<noteq> []"
      and "current_user e d c = Inr u"
  shows "follows_POST e req d = (error_json 400 ''Cannot follow yourself'', d)"
  using assms by (simp add: follows_POST_def)

theorem follows_POST_self_witness:
  "follows_POST env0 (json_request ''cb'' [(''following_id'', JStr ''u2'')]) db0
     = (Response 400 (ErrorBody ''Cannot follow yourself'' None), db0)"
  using follows_POST_self [where req = "json_request ''cb'' [(''following_id'', JStr ''u2'')]"
          and c = "''cb''" and b = "JObj [(''following_id'', JStr ''u2'')]" and u = "''u2''"
          and e = env0 and d = db0]
  by (simp add: example_defs query_defs error_json_def)

section \<open>The feed\<close>

text \<open>
  Claim C3.  The page size of \<open>GET /posts\<close> is 10 when no limit is given and the given
  limit capped at 50 otherwise; the offset is 0 when none is given and otherwise the
  given offset as the handler's number type holds it, which is the offset itself up to
  \<open>2^53\<close>.  In a response with a page of posts, \<open>has_more\<close> holds exactly when the
  number of posts equals that page size, and \<open>next_offset\<close> is present exactly when
  \<open>has_more\<close> holds and is then the handler's sum of offset and page size; where
  offset plus page size stays within \<open>2^53\<close> that sum is exact and the page has at most
  as many posts as the page size.
\<close>

theorem posts_GET_paging:
  "(query req ''limit'' = None \<or> query req ''limit'' = Some [] \<longrightarrow> request_limit req = Num 10)
 \<and> (query req ''limit'' = Some (decimal n) \<longrightarrow> request_limit req = Num (min (int n) 50))
 \<and> (query req ''offset'' = None \<or> query req ''offset'' = Some [] \<longrightarrow> request_offset req = Num 0)
 \<and> (query req ''offset'' = Some (decimal m) \<longrightarrow>
       request_offset req = round_double (int m)
       \<and> (int m \<le> 2 ^ 53 \<longrightarrow> request_offset req = Num (int m)))
 \<and> (\<forall>st page has_more next_offset d'.
       posts_GET e req d = (Response st (PostList page has_more next_offset), d') \<longrightarrow>
         (has_more \<longleftrightarrow> Num (int (length page)) = request_limit req)
       \<and> next_offset =
           (if has_more then Some (js_add (request_offset req) (request_limit req)) else None)
       \<and> (\<exists>l off. request_limit req = Num l \<and> request_offset req = Num off
             \<and> l \<le> 50 \<and> 0 \<le> off
             \<and> (0 \<le> l \<and> off + l \<le> 2 ^ 53 \<longrightarrow>
                   int (length page) \<le> l
                   \<and> js_add (request_offset req) (request_limit req) = Num (off + l))))"
proof (intro conjI impI allI)
  assume "query req ''limit'' = None \<or> query req ''limit'' = Some []"
  then show "request_limit req = Num 10"
    by (auto simp: request_limit_def parse_defs)
next
  assume "query req ''limit'' = Some (decimal n)"
  then show "request_limit req = Num (min (int n) 50)"
    by (simp add: request_limit_def decimal_nonempty parseInt_decimal js_min_round_double)
next
  assume "query req ''offset'' = None \<or> query req ''offset'' = Some []"
  then show "request_offset req = Num 0"
    by (auto simp: request_offset_def parse_defs)
next
  assume "query req ''offset'' = Some (decimal m)"
  then show "request_offset req = round_double (int m)"
    by (simp add: request_offset_def decimal_nonempty parseInt_decimal)
next
  assume "query req ''offset'' = Some (decimal m)" and "int m \<le> 2 ^ 53"
  then show "request_offset req = Num (int m)"
    by (simp add: request_offset_def decimal_nonempty parseInt_decimal_exact)
next
  fix st page has_more next_offset d'
  assume a: "posts_GET e req d = (Response st (PostList page has_more next_offset), d')"
  from posts_GET_PostList [OF a] obtain rows um lk where
    r: "range_query e PostStatsSelect (request_offset req)
          (js_sub (js_add (request_offset req) (request_limit req)) (Num 1))
          (listed_rows e req d) = Inr rows"
    and p: "page = map (format_post um lk) rows"
    and h: "has_more = (Num (int (length page)) = request_limit req)"
    and n: "next_offset =
              (if has_more then Some (js_add (request_offset req) (request_limit req)) else None)"
    by blast
  show "has_more \<longleftrightarrow> Num (int (length page)) = request_limit req" by (rule h)
  show "next_offset =
          (if has_more then Some (js_add (request_offset req) (request_limit req)) else None)"
    by (rule n)
  from range_query_Inr [OF r] obtain off lim where
    o: "request_offset req = Num off"
    and l: "js_add (js_sub (js_sub (js_add (request_offset req) (request_limit req)) (Num 1))
              (request_offset req)) (Num 1) = Num lim"
    and b: "0 \<le> off" "0 \<le> lim"
    and t: "rows = take (nat lim) (drop (nat off) (listed_rows e req d))"
    by blast
  from request_limit_cases [of req] l o obtain k where
    k: "request_limit req = Num k" "k \<le> 50"
    by auto
  have "int (length page) \<le> k \<and> js_add (request_offset req) (request_limit req) = Num (off + k)"
    if "0 \<le> k" "off + k \<le> 2 ^ 53"
  proof -
    have 1: "round_double (off + k) = Num (off + k)"
      using that b by (intro round_double_exact) simp
    have 2: "round_double (off + k - 1) = Num (off + k - 1)"
      using that b by (intro round_double_exact) simp
    have 3: "round_double (k - 1) = Num (k - 1)"
      using that k by (intro round_double_exact) simp
    have 4: "round_double k = Num k"
      using that k by (intro round_double_exact) simp
    from l have "lim = k" by (simp add: o k 1 2 3 4)
    with p t b have "int (length page) \<le> k" by simp
    then show ?thesis by (simp add: o k 1)
  qed
  with k o b
  show "\<exists>l off. request_limit req = Num l \<and> request_offset req = Num off
          \<and> l \<le> 50 \<and> 0 \<le> off
          \<and> (0 \<le> l \<and> off + l \<le> 2 ^ 53 \<longrightarrow>
                int (length page) \<le> l
                \<and> js_add (request_offset req) (request_limit req) = Num (off + l))"
    by blast
qed

theorem posts_GET_paging_witness:
  "request_limit (list_request ''cb'' []) = Num 10
 \<and> request_limit (list_request ''cb'' [(''limit'', ''70'')]) = Num 50
 \<and> request_offset (list_request ''cb'' []) = Num 0
 \<and> request_offset (list_request ''cb'' [(''offset'', ''1'')]) = Num 1
 \<and> request_offset (list_request ''cb'' [(''offset'', ''9007199254740993'')])
      = Num 9007199254740992
 \<and> posts_GET env0 (list_request ''cb'' [(''limit'', ''1'')]) db0 =
     (Response 200 (PostList
        [\<lparr>pw_id = ''p2'', pw_user_id = ''u2'', pw_image_url = ''https://s/posts/cb/2.png'',
          pw_caption = None, pw_created_at = 20, pw_updated_at = 20, pw_likes_count = 0,
          pw_comments_count = 0, pw_user = bob, pw_is_liked = False\<rparr>]
        True (Some (Num 1))), db0)"
proof -
  have q: "query (list_request ''cb'' []) ''limit'' = None"
          "query (list_request ''cb'' []) ''offset'' = None"
          "query (list_request ''cb'' [(''limit'', ''70'')]) ''limit'' = Some (decimal 70)"
          "query (list_request ''cb'' [(''offset'', ''1'')]) ''offset'' = Some (decimal 1)"
          "query (list_request ''cb'' [(''limit'', ''1'')]) ''limit'' = Some (decimal 1)"
          "query (list_request ''cb'' [(''limit'', ''1'')]) ''offset'' = None"
          "query (list_request ''cb'' [(''limit'', ''1'')]) ''userId'' = None"
    by (simp_all add: list_request_def req0_def decimal_70 decimal_1)
  note t1 = posts_GET_paging [where req = "list_request ''cb'' []" and e = env0 and d = db0]
  note t2 = posts_GET_paging [where req = "list_request ''cb'' [(''limit'', ''70'')]"
              and n = 70 and e = env0 and d = db0]
  note t3 = posts_GET_paging [where req = "list_request ''cb'' [(''offset'', ''1'')]"
              and m = 1 and e = env0 and d = db0]
  note t4 = posts_GET_paging [where req = "list_request ''cb'' [(''limit'', ''1'')]"
              and n = 1 and e = env0 and d = db0]
  have l1: "request_limit (list_request ''cb'' [(''limit'', ''1'')]) = Num 1"
    and o1: "request_offset (list_request ''cb'' [(''limit'', ''1'')]) = Num 0"
    using t4 q by simp_all
  have big: "request_offset (list_request ''cb'' [(''offset'', ''9007199254740993'')])
               = Num 9007199254740992"
    by (simp add: request_offset_def list_request_def req0_def parse_defs Let_def
          bit_length.simps)
  have a: "authenticated (auth_userId (list_request ''cb'' [(''limit'', ''1'')])) = Some ''cb''"
    by (simp add: list_request_def req0_def)
  have rd: "round_double 0 = Num 0" "round_double 1 = Num 1"
    by (simp_all add: round_double_def)
  have rows: "listed_rows env0 (list_request ''cb'' [(''limit'', ''1'')]) db0 =
     [\<lparr>ps_post_id = ''p2'', ps_user_id = ''u2'', ps_image_url = ''https://s/posts/cb/2.png'',
       ps_caption = None, ps_created_at = 20, ps_likes_count = 0, ps_comments_count = 0\<rparr>,
      \<lparr>ps_post_id = ''p1'', ps_user_id = ''u1'', ps_image_url = ''https://s/posts/ca/1.jpg'',
       ps_caption = Some ''first'', ps_created_at = 10, ps_likes_count = 1,
       ps_comments_count = 1\<rparr>]"
    by (simp add: listed_rows_def q post_stats_def order_created_at_desc_def db0_def post1_def
          post2_def like1_def comment1_def env0_def)
  have "posts_GET env0 (list_request ''cb'' [(''limit'', ''1'')]) db0 =
     (Response 200 (PostList
        [\<lparr>pw_id = ''p2'', pw_user_id = ''u2'', pw_image_url = ''https://s/posts/cb/2.png'',
          pw_caption = None, pw_created_at = 20, pw_updated_at = 20, pw_likes_count = 0,
          pw_comments_count = 0, pw_user = bob, pw_is_liked = False\<rparr>]
        True (Some (Num 1))), db0)"
    apply (simp add: posts_GET_def a l1 o1 rows current_user_db0_bob range_query_def rd)
    apply (simp add: env0_def rd)
    apply (simp add: Let_def select_rows_def format_post_def ok_json_def db0_def alice_def
             bob_def like1_def rd)
    done
  moreover have "request_limit (list_request ''cb'' []) = Num 10"
    and "request_offset (list_request ''cb'' []) = Num 0"
    using t1 q by simp_all
  moreover have "request_limit (list_request ''cb'' [(''limit'', ''70'')]) = Num 50"
    using t2 q by simp
  moreover have "request_offset (list_request ''cb'' [(''offset'', ''1'')]) = Num 1"
  proof -
    have "(1::int) \<le> 2 ^ 53" by simp
    with t3 q(4) show ?thesis by (metis of_nat_1)
  qed
  ultimately show ?thesis using big by simp
qed



section \<open>Ownership\<close>

text \<open>
  Claim C4.  When the authenticated requester resolves to a user other than the owner
  of the post named in the path, \<open>DELETE /posts/{id}\<close> answers 403 and leaves tables
  and bucket as they were; when the requester is not the owner of the comment named by
  \<open>comment_id\<close>, \<open>DELETE /comments\<close> answers 403 and leaves them as they were.
  Whenever one of the two handlers changes anything or answers with success, the
  requester resolved to the user in the owner field of the row found.
\<close>

theorem delete_only_by_owner:
  "(\<forall>c u post.
      authenticated (auth_userId req) = Some c \<and> current_user e d c = Inr u
      \<and> path_postId req \<noteq> []
      \<and> select_single e PostsSelect (filter (\<lambda>x. p_id x = path_postId req) (posts d)) = Inr post
      \<and> p_user_id post \<noteq> u
      \<longrightarrow> post_DELETE e req d =
            (error_json 403 ''Forbidden: You can only delete your own posts'', d))
 \<and> (\<forall>c u b cid comment.
      authenticated (auth_userId req) = Some c \<and> current_user e d c = Inr u
      \<and> json_body req = Some b \<and> get_field b ''comment_id'' = Some (JStr cid) \<and> cid \<noteq> []
      \<and> select_single e CommentsSelect (filter (\<lambda>x. c_id x = cid) (comments d)) = Inr comment
      \<and> c_user_id comment \<noteq> u
      \<longrightarrow> comments_DELETE e req d =
            (error_json 403 ''Forbidden: You can only delete your own comments'', d))
 \<and> (snd (post_DELETE e req d) \<noteq> d \<or> status (fst (post_DELETE e req d)) = 200
      \<longrightarrow> (\<exists>c u post.
             authenticated (auth_userId req) = Some c \<and> current_user e d c = Inr u
             \<and> select_single e PostsSelect
                  (filter (\<lambda>x. p_id x = path_postId req) (posts d)) = Inr post
             \<and> p_user_id post = u))
 \<and> (snd (comments_DELETE e req d) \<noteq> d \<or> status (fst (comments_DELETE e req d)) = 200
      \<longrightarrow> (\<exists>c u b cid comment.
             authenticated (auth_userId req) = Some c \<and> current_user e d c = Inr u
             \<and> json_body req = Some b \<and> get_field b ''comment_id'' = Some cid
             \<and> select_single e CommentsSelect
                  (filter (\<lambda>x. c_id x = str_of cid) (comments d)) = Inr comment
             \<and> c_user_id comment = u))"
proof (intro conjI allI impI)
  fix c u post
  assume "authenticated (auth_userId req) = Some c \<and> current_user e d c = Inr u
      \<and> path_postId req \<noteq> []
      \<and> select_single e PostsSelect (filter (\<lambda>x. p_id x = path_postId req) (posts d)) = Inr post
      \<and> p_user_id post \<noteq> u"
  then show "post_DELETE e req d =
            (error_json 403 ''Forbidden: You can only delete your own posts'', d)"
    by (simp add: post_DELETE_def Let_def)
next
  fix c u b cid comment
  assume "authenticated (auth_userId req) = Some c \<and> current_user e d c = Inr u
      \<and> json_body req = Some b \<and> get_field b ''comment_id'' = Some (JStr cid) \<and> cid \<noteq> []
      \<and> select_single e CommentsSelect (filter (\<lambda>x. c_id x = cid) (comments d)) = Inr comment
      \<and> c_user_id comment \<noteq> u"
  then show "comments_DELETE e req d =
            (error_json 403 ''Forbidden: You can only delete your own comments'', d)"
    by (simp add: comments_DELETE_def)
next
  assume "snd (post_DELETE e req d) \<noteq> d \<or> status (fst (post_DELETE e req d)) = 200"
  then show "\<exists>c u post.
             authenticated (auth_userId req) = Some c \<and> current_user e d c = Inr u
             \<and> select_single e PostsSelect
                  (filter (\<lambda>x. p_id x = path_postId req) (posts d)) = Inr post
             \<and> p_user_id post = u"
    by (rule post_DELETE_changes)
next
  assume "snd (comments_DELETE e req d) \<noteq> d \<or> status (fst (comments_DELETE e req d)) = 200"
  then show "\<exists>c u b cid comment.
             authenticated (auth_userId req) = Some c \<and> current_user e d c = Inr u
             \<and> json_body req = Some b \<and> get_field b ''comment_id'' = Some cid
             \<and> select_single e CommentsSelect
                  (filter (\<lambda>x. c_id x = str_of cid) (comments d)) = Inr comment
             \<and> c_user_id comment = u"
    by (rule comments_DELETE_changes)
qed

theorem delete_only_by_owner_witness:
  "post_DELETE env0 (delete_post_request ''cb'' ''p1'') db0 =
     (Response 403 (ErrorBody ''Forbidden: You can only delete your own posts'' None), db0)
 \<and> comments_DELETE env0 (json_request ''cb'' [(''comment_id'', JStr ''c1'')]) db0 =
     (Response 403 (ErrorBody ''Forbidden: You can only delete your own comments'' None), db0)
 \<and> status (fst (post_DELETE env0 (delete_post_request ''ca'' ''p1'') db0)) = 200
 \<and> (\<exists>post. select_single env0 PostsSelect (filter (\<lambda>x. p_id x = ''p1'') (posts db0)) = Inr post
        \<and> p_user_id post = ''u1'')"
proof -
  have 1: "authenticated (auth_userId (delete_post_request ''cb'' ''p1'')) = Some ''cb''"
          "path_postId (delete_post_request ''cb'' ''p1'') = ''p1''"
          "authenticated (auth_userId (delete_post_request ''ca'' ''p1'')) = Some ''ca''"
          "path_postId (delete_post_request ''ca'' ''p1'') = ''p1''"
    by (simp_all add: delete_post_request_def req0_def)
  have 2: "select_single env0 PostsSelect (filter (\<lambda>x. p_id x = ''p1'') (posts db0)) = Inr post1"
    by (simp add: select_single_def single_def env0_def db0_def post1_def post2_def)
  have 3: "p_user_id post1 = ''u1''" by (simp add: post1_def)
  have 4: "authenticated (auth_userId (json_request ''cb'' [(''comment_id'', JStr ''c1'')])) = Some ''cb''"
          "json_body (json_request ''cb'' [(''comment_id'', JStr ''c1'')]) = Some (JObj [(''comment_id'', JStr ''c1'')])"
          "get_field (JObj [(''comment_id'', JStr ''c1'')]) ''comment_id'' = Some (JStr ''c1'')"
    by (simp_all add: json_request_def req0_def)
  have 5: "select_single env0 CommentsSelect (filter (\<lambda>x. c_id x = ''c1'') (comments db0)) = Inr comment1"
    by (simp add: select_single_def single_def env0_def db0_def comment1_def)
  have 6: "c_user_id comment1 = ''u1''" by (simp add: comment1_def)
  have 7: "status (fst (post_DELETE env0 (delete_post_request ''ca'' ''p1'') db0)) = 200"
    by (simp add: post_DELETE_owner_example)
  note t1 = delete_only_by_owner [where req = "delete_post_request ''cb'' ''p1''" and e = env0 and d = db0]
  note t2 = delete_only_by_owner [where req = "json_request ''cb'' [(''comment_id'', JStr ''c1'')]" and e = env0 and d = db0]
  note t3 = delete_only_by_owner [where req = "delete_post_request ''ca'' ''p1''" and e = env0 and d = db0]
  have a: "post_DELETE env0 (delete_post_request ''cb'' ''p1'') db0 =
     (error_json 403 ''Forbidden: You can only delete your own posts'', db0)"
    using t1 1 2 3 current_user_db0_bob by auto
  have b: "comments_DELETE env0 (json_request ''cb'' [(''comment_id'', JStr ''c1'')]) db0 =
     (error_json 403 ''Forbidden: You can only delete your own comments'', db0)"
    using t2 4 5 6 current_user_db0_bob by auto
  have c: "\<exists>post. select_single env0 PostsSelect (filter (\<lambda>x. p_id x = ''p1'') (posts db0)) = Inr post
        \<and> p_user_id post = ''u1''"
    using t3 7 1 current_user_db0_alice by auto
  from a b c 7 show ?thesis by (simp add: error_json_def)
qed

section \<open>Creating a post\<close>

text \<open>
  Claim C5.  For an authenticated request whose form carries an image file, with the
  limits 5 MB, the four image types and 2200 characters: an image above the size limit
  is answered 400 "File size exceeds 5MB limit"; otherwise a type outside the allow-list
  is answered 400 "Invalid file type..."; otherwise a caption whose trimmed text exceeds
  the length limit is answered 400 "Caption exceeds 2200 characters".  Whenever one of
  the three conditions holds the response is 400 and tables and bucket are as before:
  nothing was uploaded and nothing inserted.
\<close>

theorem posts_POST_validation:
  assumes "authenticated (auth_userId req) = Some c"
      and "form req = Some fd"
      and "fd ''image'' = Some (FileValue img)"
  shows "MAX_FILE_SIZE = 5242880
       \<and> set ALLOWED_MIME_TYPES = {''image/jpeg'', ''image/png'', ''image/webp'', ''image/gif''}
       \<and> MAX_CAPTION_LENGTH = 2200
       \<and> (file_size img > MAX_FILE_SIZE \<longrightarrow>
             posts_POST e req d = (error_json 400 ''File size exceeds 5MB limit'', d))
       \<and> (file_size img \<le> MAX_FILE_SIZE \<and> file_type img \<notin> set ALLOWED_MIME_TYPES \<longrightarrow>
             posts_POST e req d =
               (error_json 400 ''Invalid file type. Only JPEG, PNG, WebP, and GIF are allowed'', d))
       \<and> (file_size img \<le> MAX_FILE_SIZE \<and> file_type img \<in> set ALLOWED_MIME_TYPES
            \<and> fd ''caption'' = Some (TextValue t) \<and> length (trim t) > MAX_CAPTION_LENGTH \<longrightarrow>
             posts_POST e req d = (error_json 400 ''Caption exceeds 2200 characters'', d))
       \<and> (file_size img > MAX_FILE_SIZE \<or> file_type img \<notin> set ALLOWED_MIME_TYPES
            \<or> (fd ''caption'' = Some (TextValue t) \<and> length (trim t) > MAX_CAPTION_LENGTH) \<longrightarrow>
             status (fst (posts_POST e req d)) = 400 \<and> snd (posts_POST e req d) = d)"
proof -
  have size: "posts_POST e req d = (error_json 400 ''File size exceeds 5MB limit'', d)"
    if "file_size img > MAX_FILE_SIZE"
    using assms that by (simp add: posts_POST_def size_message)
  have type: "posts_POST e req d =
      (error_json 400 ''Invalid file type. Only JPEG, PNG, WebP, and GIF are allowed'', d)"
    if "file_size img \<le> MAX_FILE_SIZE" "file_type img \<notin> set ALLOWED_MIME_TYPES"
    using assms that by (simp add: posts_POST_def)
  have cap: "posts_POST e req d = (error_json 400 ''Caption exceeds 2200 characters'', d)"
    if "file_size img \<le> MAX_FILE_SIZE" "file_type img \<in> set ALLOWED_MIME_TYPES"
       "fd ''caption'' = Some (TextValue t)" "length (trim t) > MAX_CAPTION_LENGTH"
  proof -
    from that(4) have "trim t \<noteq> []" by auto
    with assms that show ?thesis
      by (simp add: posts_POST_def Let_def caption_message)
  qed
  have any: "status (fst (posts_POST e req d)) = 400 \<and> snd (posts_POST e req d) = d"
    if "file_size img > MAX_FILE_SIZE \<or> file_type img \<notin> set ALLOWED_MIME_TYPES
        \<or> (fd ''caption'' = Some (TextValue t) \<and> length (trim t) > MAX_CAPTION_LENGTH)"
  proof (cases "file_size img > MAX_FILE_SIZE")
    case True
    then show ?thesis by (simp add: size error_json_def)
  next
    case False
    note s = this
    show ?thesis
    proof (cases "file_type img \<in> set ALLOWED_MIME_TYPES")
      case False
      with s show ?thesis by (simp add: type error_json_def)
    next
      case True
      with s that show ?thesis by (simp add: cap error_json_def)
    qed
  qed
  show ?thesis
    using size type cap any
    by (simp add: MAX_FILE_SIZE_def ALLOWED_MIME_TYPES_def MAX_CAPTION_LENGTH_def)
qed

theorem posts_POST_validation_witness:
  "posts_POST env0 (upload_request (Some ''cb'') (photo 6291456 ''image/jpeg'') None) db0
     = (Response 400 (ErrorBody ''File size exceeds 5MB limit'' None), db0)
 \<and> posts_POST env0 (upload_request (Some ''cb'') (photo 100 ''text/plain'') None) db0
     = (Response 400
         (ErrorBody ''Invalid file type. Only JPEG, PNG, WebP, and GIF are allowed'' None), db0)
 \<and> posts_POST env0
       (upload_request (Some ''cb'') (photo 100 ''image/png'')
          (Some (replicate 2201 (CHR ''a'')))) db0
     = (Response 400 (ErrorBody ''Caption exceeds 2200 characters'' None), db0)"
proof -
  have r: "authenticated (auth_userId (upload_request (Some ''cb'') img cap)) = Some ''cb''"
          "form (upload_request (Some ''cb'') img cap) =
             Some (\<lambda>k. if k = ''image'' then Some (FileValue img)
                        else if k = ''caption'' then map_option TextValue cap else None)"
    for img cap by (simp_all add: upload_request_def req0_def)
  note t1 = posts_POST_validation [OF r [of "photo 6291456 ''image/jpeg''" None],
              where img = "photo 6291456 ''image/jpeg''" and e = env0 and d = db0]
  note t2 = posts_POST_validation [OF r [of "photo 100 ''text/plain''" None],
              where img = "photo 100 ''text/plain''" and e = env0 and d = db0]
  note t3 = posts_POST_validation
              [OF r [of "photo 100 ''image/png''" "Some (replicate 2201 (CHR ''a''))"],
              where img = "photo 100 ''image/png''"
              and t = "replicate 2201 (CHR ''a'')" and e = env0 and d = db0]
  have a: "posts_POST env0 (upload_request (Some ''cb'') (photo 6291456 ''image/jpeg'') None) db0
     = (error_json 400 ''File size exceeds 5MB limit'', db0)"
    using t1 by (simp add: photo_def)
  have b: "posts_POST env0 (upload_request (Some ''cb'') (photo 100 ''text/plain'') None) db0
     = (error_json 400 ''Invalid file type. Only JPEG, PNG, WebP, and GIF are allowed'', db0)"
    using t2 by (simp add: photo_def)
  have c: "posts_POST env0
       (upload_request (Some ''cb'') (photo 100 ''image/png'')
          (Some (replicate 2201 (CHR ''a'')))) db0
     = (error_json 400 ''Caption exceeds 2200 characters'', db0)"
    using t3 by (simp add: photo_def trim_replicate_a)
  from a b c show ?thesis by (simp add: error_json_def)
qed

text \<open>
  Claim C6.  Let a valid request be authenticated and resolved, the upload succeed, and
  the insert into posts fail with the error \<open>err\<close>.  Then the response is 500
  "Failed to create post" with the error's message, whatever happens to the
  compensating removal; the posts table is as before; and the uploaded object is
  removed again when the removal works, and stays in the bucket when the removal
  returns an error or its promise rejects.
\<close>

theorem posts_POST_insert_failure:
  assumes "authenticated (auth_userId req) = Some c"
      and "form req = Some fd"
      and "fd ''image'' = Some (FileValue img)"
      and "file_size img \<le> MAX_FILE_SIZE"
      and "file_type img \<in> set ALLOWED_MIME_TYPES"
      and "fd ''caption'' = None
           \<or> (\<exists>t. fd ''caption'' = Some (TextValue t) \<and> length (trim t) \<le> MAX_CAPTION_LENGTH)"
      and "current_user e d c = Inr u"
      and "path = c @ ''/'' @ date_now_random e @ ''.'' @ file_ext (file_name img)"
      and "failure e StorageUpload = None"
      and "path \<notin> set (bucket d)"
      and "failure e PostsInsert = Some err"
  shows "posts_POST e req d =
           (error_details 500 ''Failed to create post'' err,
            d\<lparr>bucket := (if remove_rejects e \<or> failure e StorageRemove \<noteq> None
                           then bucket d @ [path] else bucket d)\<rparr>)
       \<and> posts (snd (posts_POST e req d)) = posts d"
proof -
  have f: "filter (\<lambda>x. x \<noteq> path) (bucket d) = bucket d"
    using assms(10) by (auto simp: filter_id_conv)
  from assms(6) show ?thesis
  proof
    assume "fd ''caption'' = None"
    with assms f show ?thesis
      by (auto simp: posts_POST_def Let_def storage_upload_def insert_post_def storage_remove_def)
  next
    assume "\<exists>t. fd ''caption'' = Some (TextValue t) \<and> length (trim t) \<le> MAX_CAPTION_LENGTH"
    then obtain t where "fd ''caption'' = Some (TextValue t)" "length (trim t) \<le> MAX_CAPTION_LENGTH"
      by blast
    with assms(1-5,7-11) f show ?thesis
      by (auto simp: posts_POST_def Let_def storage_upload_def insert_post_def storage_remove_def)
  qed
qed

theorem posts_POST_insert_failure_witness:
  "posts_POST (failing PostsInsert (PgError ''08006'' ''connection lost''))
     (upload_request (Some ''cb'') (photo 100 ''image/png'') None) db0
     = (Response 500 (ErrorBody ''Failed to create post'' (Some ''connection lost'')), db0)
 \<and> posts_POST ((failing PostsInsert (PgError ''08006'' ''connection lost''))
                  \<lparr>remove_rejects := True\<rparr>)
     (upload_request (Some ''cb'') (photo 100 ''image/png'') None) db0
     = (Response 500 (ErrorBody ''Failed to create post'' (Some ''connection lost'')),
        db0\<lparr>bucket := [''ca/1.jpg'', ''cb/2.png'', ''cb/17-ab.jpg'']\<rparr>)"
proof -
  let ?req = "upload_request (Some ''cb'') (photo 100 ''image/png'') None"
  let ?e1 = "failing PostsInsert (PgError ''08006'' ''connection lost'')"
  let ?e2 = "?e1\<lparr>remove_rejects := True\<rparr>"
  let ?fd = "\<lambda>k. if k = ''image'' then Some (FileValue (photo 100 ''image/png''))
                  else if k = ''caption'' then map_option TextValue None else None"
  have r: "authenticated (auth_userId ?req) = Some ''cb''" "form ?req = Some ?fd"
    by (simp_all add: upload_request_def req0_def)
  have i: "?fd ''image'' = Some (FileValue (photo 100 ''image/png''))" by simp
  have s: "file_size (photo 100 ''image/png'') \<le> MAX_FILE_SIZE"
    by (simp add: photo_def MAX_FILE_SIZE_def)
  have m: "file_type (photo 100 ''image/png'') \<in> set ALLOWED_MIME_TYPES"
    by (simp add: photo_def ALLOWED_MIME_TYPES_def)
  have c: "?fd ''caption'' = None
           \<or> (\<exists>t. ?fd ''caption'' = Some (TextValue t) \<and> length (trim t) \<le> MAX_CAPTION_LENGTH)"
    by simp
  have u: "current_user ?e1 db0 ''cb'' = Inr ''u2''" "current_user ?e2 db0 ''cb'' = Inr ''u2''"
    by (simp_all add: query_defs example_defs)
  have p: "''cb/17-ab.jpg'' = ''cb'' @ ''/'' @ date_now_random ?e1 @ ''.''
              @ file_ext (file_name (photo 100 ''image/png''))"
          "''cb/17-ab.jpg'' = ''cb'' @ ''/'' @ date_now_random ?e2 @ ''.''
              @ file_ext (file_name (photo 100 ''image/png''))"
    by (simp_all add: failing_def env0_def photo_def file_ext_def)
  have f: "failure ?e1 StorageUpload = None" "failure ?e2 StorageUpload = None"
          "failure ?e1 PostsInsert = Some (PgError ''08006'' ''connection lost'')"
          "failure ?e2 PostsInsert = Some (PgError ''08006'' ''connection lost'')"
          "failure ?e1 StorageRemove = None" "\<not> remove_rejects ?e1" "remove_rejects ?e2"
    by (simp_all add: failing_def env0_def)
  have b: "''cb/17-ab.jpg'' \<notin> set (bucket db0)" by (simp add: db0_def)
  have d: "db0\<lparr>bucket := bucket db0\<rparr> = db0"
          "bucket db0 @ [''cb/17-ab.jpg''] = [''ca/1.jpg'', ''cb/2.png'', ''cb/17-ab.jpg'']"
    by (simp_all add: db0_def)
  from posts_POST_insert_failure [OF r i s m c u(1) p(1) f(1) b f(3)]
       posts_POST_insert_failure [OF r i s m c u(2) p(2) f(2) b f(4)]
  show ?thesis
    by (simp add: f d error_details_def)
qed

section \<open>Timestamps in the list and in the detail\<close>

text \<open>
  Claim C9.  Every post in a list response of \<open>GET /posts\<close> has as \<open>updated_at\<close> its
  \<open>created_at\<close>, which is the creation time of the stored post with that id: the list
  reports the creation time whatever the stored time of the last update is.  The post
  in a response of \<open>GET /posts/{id}\<close> has the \<open>updated_at\<close> of the stored post.
\<close>

theorem list_reports_created_at:
  "(\<forall>st page has_more next_offset d'.
      posts_GET e req d = (Response st (PostList page has_more next_offset), d') \<longrightarrow>
        (\<forall>x \<in> set page.
           pw_updated_at x = pw_created_at x
           \<and> (\<exists>p \<in> set (posts d). p_id p = pw_id x \<and> pw_updated_at x = p_created_at p)))
 \<and> (\<forall>st x d'.
      post_GET e req d = (Response st (PostDetail x), d') \<longrightarrow>
        (\<exists>p. filter (\<lambda>p. p_id p = path_postId req) (posts d) = [p]
           \<and> pw_id x = p_id p \<and> pw_created_at x = p_created_at p
           \<and> pw_updated_at x = p_updated_at p))"
proof (intro conjI allI impI ballI)
  fix st page has_more next_offset d' x
  assume a: "posts_GET e req d = (Response st (PostList page has_more next_offset), d')"
    and x: "x \<in> set page"
  from posts_GET_rows [OF a x] obtain r um lk where
    r: "r \<in> set (post_stats d)" and f: "x = format_post um lk r" by blast
  from f show "pw_updated_at x = pw_created_at x" by (simp add: format_post_def)
  from r obtain p where "p \<in> set (posts d)" "ps_post_id r = p_id p" "ps_created_at r = p_created_at p"
    by (auto simp: post_stats_def)
  with f show "\<exists>p \<in> set (posts d). p_id p = pw_id x \<and> pw_updated_at x = p_created_at p"
    by (auto simp: format_post_def)
next
  fix st x d'
  assume "post_GET e req d = (Response st (PostDetail x), d')"
  then show "\<exists>p. filter (\<lambda>p. p_id p = path_postId req) (posts d) = [p]
           \<and> pw_id x = p_id p \<and> pw_created_at x = p_created_at p
           \<and> pw_updated_at x = p_updated_at p"
    by (auto simp: post_GET_def Let_def response_defs select_single_def single_def
             split: option.splits sum.splits if_splits list.splits)
qed

theorem list_reports_created_at_witness:
  "posts_GET env0 (list_request ''cb'' []) db0 =
     (Response 200 (PostList [listed_p2, listed_p1] False None), db0)
 \<and> post_GET env0 (detail_request ''p1'') db0 = (Response 200 (PostDetail detail_p1), db0)
 \<and> pw_updated_at listed_p1 = pw_created_at listed_p1
 \<and> pw_updated_at listed_p2 = pw_created_at listed_p2
 \<and> pw_updated_at listed_p1 = p_created_at post1
 \<and> pw_updated_at detail_p1 = p_updated_at post1
 \<and> pw_updated_at listed_p1 \<noteq> pw_updated_at detail_p1"
proof -
  note t1 = list_reports_created_at [where e = env0 and req = "list_request ''cb'' []"
              and d = db0]
  note t2 = list_reports_created_at [where e = env0 and req = "detail_request ''p1''"
              and d = db0]
  from t1 posts_GET_db0 have
    a: "\<forall>x\<in>set [listed_p2, listed_p1]. pw_updated_at x = pw_created_at x
          \<and> (\<exists>p\<in>set (posts db0). p_id p = pw_id x \<and> pw_updated_at x = p_created_at p)"
    by blast
  from t2 post_GET_db0 have
    "\<exists>p. filter (\<lambda>p. p_id p = path_postId (detail_request ''p1'')) (posts db0) = [p]
        \<and> pw_id detail_p1 = p_id p \<and> pw_created_at detail_p1 = p_created_at p
        \<and> pw_updated_at detail_p1 = p_updated_at p"
    by blast
  then have b: "pw_updated_at detail_p1 = p_updated_at post1"
    by (auto simp: detail_request_def req0_def db0_def post1_def post2_def)
  from a have c: "pw_updated_at listed_p1 = p_created_at post1"
    by (auto simp: db0_def post1_def post2_def listed_p1_def)
  from a b c posts_GET_db0 post_GET_db0 show ?thesis
    by (simp add: post1_def listed_p1_def detail_p1_def)
qed

section \<open>A verified subject without a user row\<close>

text \<open>
  Claim C10.  Let the request carry a verified subject for which the users table has no
  row.  Then \<open>GET /posts\<close> answers 404 "User not found", and so does each of the
  handlers that create a post, add or remove a like, create or delete a comment, add or
  remove a follow, or delete a post, once the request has passed the checks of its
  input that the handler makes before it resolves the requester.  None of these
  handlers gets further: whatever the request, the response is 400, 404 or 500 and the
  database is as before, so that no user row is created; the handler for one post never
  changes the database either.
\<close>

theorem requester_without_row:
  assumes "authenticated (auth_userId req) = Some c"
      and "filter (\<lambda>x. u_clerk_id x = c) (users d) = []"
  shows "posts_GET e req d = (error_json 404 ''User not found'', d)
 \<and> (\<forall>fd img.
       form req = Some fd \<and> fd ''image'' = Some (FileValue img)
       \<and> file_size img \<le> MAX_FILE_SIZE \<and> file_type img \<in> set ALLOWED_MIME_TYPES
       \<and> (fd ''caption'' = None
           \<or> (\<exists>t. fd ''caption'' = Some (TextValue t) \<and> length (trim t) \<le> MAX_CAPTION_LENGTH))
       \<longrightarrow> posts_POST e req d = (error_json 404 ''User not found'', d))
 \<and> (\<forall>b p.
       json_body req = Some b \<and> get_field b ''post_id'' = Some (JStr p) \<and> p \<noteq> []
       \<longrightarrow> likes_POST e req d = (error_json 404 ''User not found'', d)
           \<and> likes_DELETE e req d = (error_json 404 ''User not found'', d))
 \<and> (\<forall>b p t.
       json_body req = Some b \<and> get_field b ''post_id'' = Some (JStr p) \<and> p \<noteq> []
       \<and> get_field b ''content'' = Some (JStr t) \<and> trim t \<noteq> []
       \<longrightarrow> comments_POST e req d = (error_json 404 ''User not found'', d))
 \<and> (\<forall>b i.
       json_body req = Some b \<and> get_field b ''comment_id'' = Some (JStr i) \<and> i \<noteq> []
       \<longrightarrow> comments_DELETE e req d = (error_json 404 ''User not found'', d))
 \<and> (\<forall>b i.
       json_body req = Some b \<and> get_field b ''following_id'' = Some (JStr i) \<and> i \<noteq> []
       \<longrightarrow> follows_POST e req d = (error_json 404 ''User not found'', d)
           \<and> follows_DELETE e req d = (error_json 404 ''User not found'', d))
 \<and> (path_postId req \<noteq> [] \<longrightarrow> post_DELETE e req d = (error_json 404 ''User not found'', d))
 \<and> (\<forall>h \<in> set [posts_GET, posts_POST, post_DELETE, likes_POST, likes_DELETE,
                  comments_POST, comments_DELETE, follows_POST, follows_DELETE].
       snd (h e req d) = d \<and> status (fst (h e req d)) \<in> {400, 404, 500})
 \<and> snd (post_GET e req d) = d"
proof -
  from current_user_no_row [OF assms(2)] obtain err where cu: "current_user e d c = Inl err"
    by blast
  note a = assms(1)
  have 1: "posts_GET e req d = (error_json 404 ''User not found'', d)"
    using a cu by (simp add: posts_GET_def Let_def)
  have 2: "posts_POST e req d = (error_json 404 ''User not found'', d)"
    if "form req = Some fd" "fd ''image'' = Some (FileValue img)"
       "file_size img \<le> MAX_FILE_SIZE" "file_type img \<in> set ALLOWED_MIME_TYPES"
       "fd ''caption'' = None
        \<or> (\<exists>t. fd ''caption'' = Some (TextValue t) \<and> length (trim t) \<le> MAX_CAPTION_LENGTH)"
    for fd img
    using a cu that by (auto simp: posts_POST_def Let_def)
  have 3: "likes_POST e req d = (error_json 404 ''User not found'', d)
           \<and> likes_DELETE e req d = (error_json 404 ''User not found'', d)"
    if "json_body req = Some b" "get_field b ''post_id'' = Some (JStr p)" "p \<noteq> []" for b p
    using a cu that by (simp add: likes_POST_def likes_DELETE_def)
  have 4: "comments_POST e req d = (error_json 404 ''User not found'', d)"
    if "json_body req = Some b" "get_field b ''post_id'' = Some (JStr p)" "p \<noteq> []"
       "get_field b ''content'' = Some (JStr t)" "trim t \<noteq> []" for b p t
  proof -
    from that(5) have "t \<noteq> []" by (auto simp: trim_def)
    with a cu that show ?thesis by (simp add: comments_POST_def)
  qed
  have 5: "comments_DELETE e req d = (error_json 404 ''User not found'', d)"
    if "json_body req = Some b" "get_field b ''comment_id'' = Some (JStr i)" "i \<noteq> []" for b i
    using a cu that by (simp add: comments_DELETE_def)
  have 6: "follows_POST e req d = (error_json 404 ''User not found'', d)
           \<and> follows_DELETE e req d = (error_json 404 ''User not found'', d)"
    if "json_body req = Some b" "get_field b ''following_id'' = Some (JStr i)" "i \<noteq> []" for b i
    using a cu that by (simp add: follows_POST_def follows_DELETE_def)
  have 7: "post_DELETE e req d = (error_json 404 ''User not found'', d)"
    if "path_postId req \<noteq> []"
    using a cu that by (simp add: post_DELETE_def Let_def)
  have 8: "snd (posts_GET e req d) = d \<and> status (fst (posts_GET e req d)) \<in> {400, 404, 500}"
    by (simp add: 1 error_json_def)
  have 9: "snd (posts_POST e req d) = d \<and> status (fst (posts_POST e req d)) \<in> {400, 404, 500}"
    using a cu
    by (auto simp: posts_POST_def Let_def response_defs
             split: option.splits form_value.splits)
  have 10: "snd (post_DELETE e req d) = d \<and> status (fst (post_DELETE e req d)) \<in> {400, 404, 500}"
    using a cu by (simp add: post_DELETE_def Let_def response_defs)
  have 11: "snd (likes_POST e req d) = d \<and> status (fst (likes_POST e req d)) \<in> {400, 404, 500}"
    using a cu by (simp add: likes_POST_def response_defs split: option.splits)
  have 12: "snd (likes_DELETE e req d) = d \<and> status (fst (likes_DELETE e req d)) \<in> {400, 404, 500}"
    using a cu by (simp add: likes_DELETE_def response_defs split: option.splits)
  have 13: "snd (comments_POST e req d) = d
            \<and> status (fst (comments_POST e req d)) \<in> {400, 404, 500}"
    using a cu by (simp add: comments_POST_def response_defs split: option.splits)
  have 14: "snd (comments_DELETE e req d) = d
            \<and> status (fst (comments_DELETE e req d)) \<in> {400, 404, 500}"
    using a cu by (simp add: comments_DELETE_def response_defs split: option.splits)
  have 15: "snd (follows_POST e req d) = d
            \<and> status (fst (follows_POST e req d)) \<in> {400, 404, 500}"
    using a cu by (simp add: follows_POST_def response_defs split: option.splits)
  have 16: "snd (follows_DELETE e req d) = d
            \<and> status (fst (follows_DELETE e req d)) \<in> {400, 404, 500}"
    using a cu by (simp add: follows_DELETE_def response_defs split: option.splits)
  have 17: "snd (post_GET e req d) = d"
    by (simp add: post_GET_def Let_def split: sum.splits)
  from 2 have r2: "\<forall>fd img.
       form req = Some fd \<and> fd ''image'' = Some (FileValue img)
       \<and> file_size img \<le> MAX_FILE_SIZE \<and> file_type img \<in> set ALLOWED_MIME_TYPES
       \<and> (fd ''caption'' = None
           \<or> (\<exists>t. fd ''caption'' = Some (TextValue t) \<and> length (trim t) \<le> MAX_CAPTION_LENGTH))
       \<longrightarrow> posts_POST e req d = (error_json 404 ''User not found'', d)"
    by blast
  from 3 have r3: "\<forall>b p.
       json_body req = Some b \<and> get_field b ''post_id'' = Some (JStr p) \<and> p \<noteq> []
       \<longrightarrow> likes_POST e req d = (error_json 404 ''User not found'', d)
           \<and> likes_DELETE e req d = (error_json 404 ''User not found'', d)"
    by blast
  from 4 have r4: "\<forall>b p t.
       json_body req = Some b \<and> get_field b ''post_id'' = Some (JStr p) \<and> p \<noteq> []
       \<and> get_field b ''content'' = Some (JStr t) \<and> trim t \<noteq> []
       \<longrightarrow> comments_POST e req d = (error_json 404 ''User not found'', d)"
    by blast
  from 5 have r5: "\<forall>b i.
       json_body req = Some b \<and> get_field b ''comment_id'' = Some (JStr i) \<and> i \<noteq> []
       \<longrightarrow> comments_DELETE e req d = (error_json 404 ''User not found'', d)"
    by blast
  from 6 have r6: "\<forall>b i.
       json_body req = Some b \<and> get_field b ''following_id'' = Some (JStr i) \<and> i \<noteq> []
       \<longrightarrow> follows_POST e req d = (error_json 404 ''User not found'', d)
           \<and> follows_DELETE e req d = (error_json 404 ''User not found'', d)"
    by blast
  have all: "\<forall>h \<in> set [posts_GET, posts_POST, post_DELETE, likes_POST, likes_DELETE,
                  comments_POST, comments_DELETE, follows_POST, follows_DELETE].
       snd (h e req d) = d \<and> status (fst (h e req d)) \<in> {400, 404, 500}"
    using 8 9 10 11 12 13 14 15 16 by simp
  from 1 r2 r3 r4 r5 r6 7 all 17 show ?thesis by blast
qed

theorem requester_without_row_witness:
  "posts_GET env0 (list_request ''cx'' []) db0
     = (Response 404 (ErrorBody ''User not found'' None), db0)
 \<and> likes_POST env0 (json_request ''cx'' [(''post_id'', JStr ''p1'')]) db0
     = (Response 404 (ErrorBody ''User not found'' None), db0)
 \<and> follows_DELETE env0 (json_request ''cx'' [(''following_id'', JStr ''u1'')]) db0
     = (Response 404 (ErrorBody ''User not found'' None), db0)
 \<and> posts_POST env0 (upload_request (Some ''cx'') (photo 100 ''image/png'') None) db0
     = (Response 404 (ErrorBody ''User not found'' None), db0)
 \<and> snd (comments_POST env0 (json_request ''cx'' []) db0) = db0"
proof -
  have n: "filter (\<lambda>x. u_clerk_id x = ''cx'') (users db0) = []"
    by (simp add: db0_def alice_def bob_def)
  have a: "authenticated (auth_userId (list_request ''cx'' ps)) = Some ''cx''"
          "authenticated (auth_userId (json_request ''cx'' kvs)) = Some ''cx''"
          "authenticated (auth_userId (upload_request (Some ''cx'') img cap)) = Some ''cx''"
    for ps kvs img cap
    by (simp_all add: list_request_def json_request_def upload_request_def req0_def)
  note t1 = requester_without_row [OF a(1) [of "[]"] n, where e = env0]
  note t2 = requester_without_row [OF a(2) [of "[(''post_id'', JStr ''p1'')]"] n,
              where e = env0]
  note t3 = requester_without_row [OF a(2) [of "[(''following_id'', JStr ''u1'')]"] n,
              where e = env0]
  note t4 = requester_without_row [OF a(3) [of "photo 100 ''image/png''" None] n,
              where e = env0]
  note t5 = requester_without_row [OF a(2) [of "[]"] n, where e = env0]
  have 1: "posts_GET env0 (list_request ''cx'' []) db0 = (error_json 404 ''User not found'', db0)"
    using t1 by blast
  have 2: "likes_POST env0 (json_request ''cx'' [(''post_id'', JStr ''p1'')]) db0
             = (error_json 404 ''User not found'', db0)"
    using t2 by (simp add: json_request_def req0_def)
  have 3: "follows_DELETE env0 (json_request ''cx'' [(''following_id'', JStr ''u1'')]) db0
             = (error_json 404 ''User not found'', db0)"
    using t3 by (simp add: json_request_def req0_def)
  have 4: "posts_POST env0 (upload_request (Some ''cx'') (photo 100 ''image/png'') None) db0
             = (error_json 404 ''User not found'', db0)"
    using t4 by (simp add: upload_request_def req0_def photo_def MAX_FILE_SIZE_def
                   ALLOWED_MIME_TYPES_def)
  have 5: "snd (comments_POST env0 (json_request ''cx'' []) db0) = db0"
    using t5 by simp
  from 1 2 3 4 5 show ?thesis by (simp add: error_json_def)
qed

end
